theory Spec2Isabelle
  imports Main "HOL-Library.Sublist" "HOL-Library.AList" "HOL-Library.List_Lexorder" "HOL-Library.Char_ord"
begin

section \<open>Python values used by migrate.py\<close>

text \<open>
  Every exception the modelled functions can raise. The script raises plain
  \<^verbatim>\<open>Exception(message)\<close> objects; each raise site gets its own constructor, named
  after the error kinds of the specification. The last five are the built-in exceptions
  raised by indexing, dictionary access, \<^verbatim>\<open>dict()\<close> and attribute or operator use on
  \<^verbatim>\<open>None\<close>.
\<close>

datatype error =
    UnknownTestType
  | UnhandledArity
  | UnexpectedParameters
  | UnknownDockerAlias
  | UnrecognizedEnvKey
  | ReconstructionMismatch
  | MissingScript
  | StageIncidentalConflict
  | TargetTypeConflict
  | MatrixCountMismatch
  | IndexError
  | KeyError
  | ValueError
  | AttributeError
  | TypeError

text \<open>\<^verbatim>\<open>s.split(sep)\<close> for a one-character separator: never returns the empty list.\<close>

fun str_split :: "char \<Rightarrow> string \<Rightarrow> string list" where
  "str_split sep [] = [[]]"
| "str_split sep (c # cs) =
     (if c = sep then [] # str_split sep cs
      else (case str_split sep cs of
              w # ws \<Rightarrow> (c # w) # ws
            | [] \<Rightarrow> [[c]]))"

text \<open>\<^verbatim>\<open>sep.join(parts)\<close>.\<close>

fun str_join :: "string \<Rightarrow> string list \<Rightarrow> string" where
  "str_join sep [] = []"
| "str_join sep [x] = x"
| "str_join sep (x # y # ys) = x @ sep @ str_join sep (y # ys)"

text \<open>
  \<^verbatim>\<open>s.replace(old, new)\<close>: every non-overlapping occurrence, scanning from the left.
  With an empty \<^verbatim>\<open>old\<close> Python puts \<^verbatim>\<open>new\<close> before every character and at the end.
\<close>

function str_replace_scan :: "string \<Rightarrow> string \<Rightarrow> string \<Rightarrow> string" where
  "str_replace_scan old new [] = []"
| "str_replace_scan old new (c # cs) =
     (if old \<noteq> [] \<and> prefix old (c # cs)
      then new @ str_replace_scan old new (drop (length old) (c # cs))
      else c # str_replace_scan old new cs)"
  by pat_completeness auto
termination
  by (relation "measure (\<lambda>(old, new, s). length s)") (auto simp: prefix_def)

definition str_replace :: "string \<Rightarrow> string \<Rightarrow> string \<Rightarrow> string" where
  "str_replace old new s =
     (if old = [] then new @ concat (map (\<lambda>c. c # new) s)
      else str_replace_scan old new s)"

text \<open>
  \<^verbatim>\<open>s.lower()\<close> on ASCII letters. The script applies it only to the display names of
  the docker table, which are ASCII.
\<close>

definition lower_char :: "char \<Rightarrow> char" where
  "lower_char c =
     (if CHR ''A'' \<le> c \<and> c \<le> CHR ''Z'' then char_of (of_char c + (32::nat)) else c)"

definition str_lower :: "string \<Rightarrow> string" where
  "str_lower s = map lower_char s"

text \<open>Truth value of an \<^verbatim>\<open>Optional[str]\<close>: \<^verbatim>\<open>None\<close> and the empty string are false.\<close>

fun truthy :: "string option \<Rightarrow> bool" where
  "truthy None = False"
| "truthy (Some s) = (s \<noteq> [])"

text \<open>
  \<^verbatim>\<open>os.path.join(a, b)\<close> on POSIX: an absolute second component replaces the first,
  and a separator is added unless the first is empty or already ends with one.
\<close>

definition os_path_join :: "string \<Rightarrow> string \<Rightarrow> string" where
  "os_path_join a b =
     (if b \<noteq> [] \<and> hd b = CHR ''/'' then b
      else if a = [] \<or> last a = CHR ''/'' then a @ b
      else a @ ''/'' @ b)"

section \<open>Lookup tables\<close>

definition test_types :: "string \<Rightarrow> (string \<times> string) option" where
  "test_types = map_of
     [(''sanity'', (''Sanity'', ''Test'')),
      (''units'', (''Units'', ''Python'')),
      (''windows'', (''Windows'', ''Server'')),
      (''osx'', (''Remote'', ''OS X'')),
      (''macos'', (''Remote'', ''macOS'')),
      (''rhel'', (''Remote'', ''RHEL'')),
      (''freebsd'', (''Remote'', ''FreeBSD'')),
      (''linux'', (''Docker'', '''')),
      (''fallaxy'', (''Fallaxy'', ''Python'')),
      (''galaxy'', (''Galaxy'', ''Python'')),
      (''generic'', (''Generic'', ''Python'')),
      (''network'', (''Network'', ''Python'')),
      (''aws'', (''AWS'', ''Python'')),
      (''vcenter'', (''vCenter'', ''Python'')),
      (''cs'', (''CloudStack'', ''Python'')),
      (''tower'', (''Tower'', ''Python'')),
      (''cloud'', (''Cloud'', ''Python'')),
      (''hcloud'', (''Hetzner'', ''Python'')),
      (''ios'', (''IOS'', ''Python'')),
      (''vyos'', (''VyOS'', ''Python'')),
      (''azure'', (''Azure'', ''Python''))]"

definition docker_types :: "string \<Rightarrow> (string \<times> string) option" where
  "docker_types = map_of
     [(''alpine3'', (''Alpine'', ''3'')),
      (''centos6'', (''CentOS'', ''6'')),
      (''centos7'', (''CentOS'', ''7'')),
      (''centos8'', (''CentOS'', ''8'')),
      (''fedora29'', (''Fedora'', ''29'')),
      (''fedora30'', (''Fedora'', ''30'')),
      (''fedora31'', (''Fedora'', ''31'')),
      (''fedora32'', (''Fedora'', ''32'')),
      (''ubuntu1604'', (''Ubuntu'', ''16.04'')),
      (''ubuntu1804'', (''Ubuntu'', ''18.04'')),
      (''opensuse15'', (''openSUSE'', ''15'')),
      (''opensuse15py2'', (''openSUSE'', ''15 py2''))]"

definition split_incidental :: "string list" where
  "split_incidental = [''Docker'', ''Remote'', ''Windows'']"

definition ansible_branches :: "string list" where
  "ansible_branches = [''devel'', ''stable-2.10'', ''stable-2.9'', ''2.10'', ''2.9'']"

section \<open>TestConfig and its properties\<close>

text \<open>
  \<^verbatim>\<open>branch_kvp\<close> is annotated \<^verbatim>\<open>Optional[str]\<close> in the source, but the only
  constructor call passes the pair \<^verbatim>\<open>(key, value)\<close> and \<^verbatim>\<open>branch_name\<close> reads its
  component 1; it is modelled as the pair.
\<close>

record TestConfig =
  stage_label :: string
  job_label :: string
  type :: string
  platform :: "string option"
  version :: "string option"
  group :: "string option"
  incidental :: bool
  branch_prefix :: "string option"
  branch_kvp :: "(string \<times> string) option"

text \<open>
  A dictionary is an association list with distinct keys in insertion order:
  \<^const>\<open>AList.update\<close> overwrites the value of a key in place and appends a new key,
  as assignment to a Python \<^verbatim>\<open>dict\<close> does.
\<close>

record MatrixItem =
  raw :: string
  test :: string
  "values" :: "(string \<times> string) list"
  parts :: "string list"

definition branch_name :: "TestConfig \<Rightarrow> string option" where
  "branch_name c =
     (let branch =
        (if truthy (branch_prefix c) then branch_prefix c
         else (case branch_kvp c of
                 Some (k, v) \<Rightarrow> Some v
               | None \<Rightarrow> None))
      in if truthy branch then map_option (str_replace ''stable-'' '''') branch else branch)"

definition stage_name :: "TestConfig \<Rightarrow> string" where
  "stage_name c =
     (let stage_name0 = stage_label c;
          stage_name1 =
            (case branch_name c of
               Some b \<Rightarrow> if b \<noteq> [] then stage_name0 @ '' '' @ b else stage_name0
             | None \<Rightarrow> stage_name0)
      in if incidental c
         then (if stage_label c \<in> set split_incidental
               then ''Incidental '' @ stage_name1
               else ''Incidental'')
         else stage_name1)"

definition name_components :: "TestConfig \<Rightarrow> string list" where
  "name_components c =
     (let parts0 = [job_label c];
          parts1 =
            (if incidental c \<and> stage_label c \<notin> set split_incidental
             then stage_label c # parts0 else parts0)
      in (case version c of
            Some v \<Rightarrow>
              if v \<noteq> [] then
                (if TestConfig.type c = ''linux'' \<and> job_label c = ''openSUSE'' \<and> v = ''15''
                 then parts1 @ [''15 py3'']
                 else parts1 @ [v])
              else parts1
          | None \<Rightarrow> parts1))"

text \<open>
  For the type \<^verbatim>\<open>linux\<close> the source concatenates \<^verbatim>\<open>self.platform\<close> with
  \<^verbatim>\<open>self.version.replace(...)\<close>: a missing version raises AttributeError when the right
  operand is evaluated, a missing platform raises TypeError at the \<^verbatim>\<open>+\<close>.
\<close>

definition test_components :: "TestConfig \<Rightarrow> error + string list" where
  "test_components c =
     (case (if TestConfig.type c = ''linux''
            then (case version c of
                    None \<Rightarrow> Inl AttributeError
                  | Some v \<Rightarrow>
                      (case platform c of
                         None \<Rightarrow> Inl TypeError
                       | Some p \<Rightarrow>
                           Inr [Some (TestConfig.type c),
                                Some (p @ str_replace ''.'' '''' (str_replace '' '' '''' v))]))
            else Inr [Some (TestConfig.type c), platform c, version c]) of
        Inl e \<Rightarrow> Inl e
      | Inr parts0 \<Rightarrow>
          (let parts1 = List.map_filter id parts0;
               parts2 = (if incidental c then ''i'' # parts1 else parts1);
               parts3 = (case branch_prefix c of
                           Some b \<Rightarrow> if b \<noteq> [] then b # parts2 else parts2
                         | None \<Rightarrow> parts2)
           in Inr parts3))"

definition test :: "TestConfig \<Rightarrow> error + string" where
  "test c =
     (case test_components c of
        Inl e \<Rightarrow> Inl e
      | Inr parts0 \<Rightarrow>
          (let parts1 = (case group c of
                           Some g \<Rightarrow> if g \<noteq> [] then parts0 @ [g] else parts0
                         | None \<Rightarrow> parts0)
           in Inr (str_join ''/'' parts1)))"

section \<open>Matrix entries and their decoding\<close>

text \<open>
  \<^verbatim>\<open>dict(pairs)\<close>: every element must have exactly two items, otherwise ValueError;
  a repeated key keeps its first position and takes the later value.
\<close>

fun dict :: "string list list \<Rightarrow> (string \<times> string) list \<Rightarrow> error + (string \<times> string) list" where
  "dict [] acc = Inr acc"
| "dict (kvp # kvps) acc =
     (case kvp of
        [k, v] \<Rightarrow> dict kvps (AList.update k v acc)
      | _ \<Rightarrow> Inl ValueError)"

text \<open>
  The body of the loop of \<^verbatim>\<open>parse_shippable_matrix\<close> on one \<^verbatim>\<open>env\<close> string;
  \<^verbatim>\<open>values.pop('T')\<close> raises KeyError when the key is missing.
\<close>

definition parse_matrix_item :: "string \<Rightarrow> error + MatrixItem" where
  "parse_matrix_item r =
     (case dict (map (str_split CHR ''='') (str_split CHR '' '' r)) [] of
        Inl e \<Rightarrow> Inl e
      | Inr vals \<Rightarrow>
          (case map_of vals ''T'' of
             None \<Rightarrow> Inl KeyError
           | Some t \<Rightarrow>
               Inr \<lparr>MatrixItem.raw = r, MatrixItem.test = t,
                    MatrixItem.values = AList.delete ''T'' vals,
                    MatrixItem.parts = str_split CHR ''/'' t\<rparr>))"

text \<open>
  \<^verbatim>\<open>parse_shippable_matrix\<close> over the \<^verbatim>\<open>env\<close> strings of \<^verbatim>\<open>matrix.include\<close>,
  in order; reading the YAML file is outside the model.
\<close>

fun parse_shippable_matrix :: "string list \<Rightarrow> error + MatrixItem list" where
  "parse_shippable_matrix [] = Inr []"
| "parse_shippable_matrix (r # rs) =
     (case parse_matrix_item r of
        Inl e \<Rightarrow> Inl e
      | Inr item \<Rightarrow>
          (case parse_shippable_matrix rs of
             Inl e \<Rightarrow> Inl e
           | Inr items \<Rightarrow> Inr (item # items)))"

section \<open>Classification\<close>

text \<open>The arity-dependent assignment of \<^verbatim>\<open>get_test_config\<close>: (platform, version, group).\<close>

fun decode_parts ::
  "string \<Rightarrow> string list \<Rightarrow> error + (string option \<times> string option \<times> string option)" where
  "decode_parts label [] = Inr (None, None, None)"
| "decode_parts label [p] =
     (if label = ''Python''
      then (if CHR ''.'' \<in> set p then Inr (None, Some p, None) else Inr (None, None, Some p))
      else Inr (None, Some p, None))"
| "decode_parts label [v, g] = Inr (None, Some v, Some g)"
| "decode_parts label [p, v, g] = Inr (Some p, Some v, Some g)"
| "decode_parts label (a # b # c # d # ps) = Inl UnhandledArity"

definition get_test_config ::
  "string \<Rightarrow> string list \<Rightarrow> bool \<Rightarrow> string option \<Rightarrow> (string \<times> string) option
     \<Rightarrow> error + TestConfig" where
  "get_test_config test_type ps inc bprefix bkvp =
     (case test_types test_type of
        None \<Rightarrow> Inl UnknownTestType
      | Some (stage_label0, job_label0) \<Rightarrow>
          (case decode_parts job_label0 ps of
             Inl e \<Rightarrow> Inl e
           | Inr (platform0, version0, group0) \<Rightarrow>
               if test_type = ''linux'' then
                 (if truthy platform0 \<or> \<not> truthy version0 then Inl UnexpectedParameters
                  else (case docker_types (the version0) of
                          None \<Rightarrow> Inl UnknownDockerAlias
                        | Some (docker_name, docker_version) \<Rightarrow>
                            Inr \<lparr>stage_label = stage_label0, job_label = docker_name,
                                 type = test_type, platform = Some (str_lower docker_name),
                                 version = Some docker_version, group = group0,
                                 incidental = inc, branch_prefix = bprefix,
                                 branch_kvp = bkvp\<rparr>))
               else
                 Inr \<lparr>stage_label = stage_label0, job_label = job_label0,
                      type = test_type, platform = platform0,
                      version = version0, group = group0,
                      incidental = inc, branch_prefix = bprefix,
                      branch_kvp = bkvp\<rparr>))"

text \<open>The loop over \<^verbatim>\<open>values.items()\<close> that stops at the first recognised branch value.\<close>

fun find_branch_kvp :: "(string \<times> string) list \<Rightarrow> (string \<times> string) option" where
  "find_branch_kvp [] = None"
| "find_branch_kvp ((k, v) # kvs) =
     (if v \<in> set ansible_branches then Some (k, v) else find_branch_kvp kvs)"

text \<open>
  \<^verbatim>\<open>classify_matrix_item\<close> up to the call of \<^verbatim>\<open>get_test_config\<close>. Each read of
  \<^verbatim>\<open>parts[0]\<close> raises IndexError on an empty list.
\<close>

definition classify_test_config :: "MatrixItem \<Rightarrow> error + TestConfig" where
  "classify_test_config item =
     (case parts item of
        [] \<Rightarrow> Inl IndexError
      | p0 # rest0 \<Rightarrow>
          (let (bprefix, parts1, bkvp, values1) =
                 (if p0 \<in> set ansible_branches
                  then (Some p0, rest0, None, MatrixItem.values item)
                  else (case find_branch_kvp (MatrixItem.values item) of
                          Some (k, v) \<Rightarrow>
                            (None, p0 # rest0, Some (k, v),
                             AList.delete k (MatrixItem.values item))
                        | None \<Rightarrow> (None, p0 # rest0, None, MatrixItem.values item)))
           in if values1 \<noteq> [] then Inl UnrecognizedEnvKey
              else (case parts1 of
                      [] \<Rightarrow> Inl IndexError
                    | p1 # rest1 \<Rightarrow>
                        (let (inc, parts2) =
                               (if p1 = ''i'' then (True, rest1) else (False, p1 # rest1))
                         in (case parts2 of
                               [] \<Rightarrow> Inl IndexError
                             | test_type # parts3 \<Rightarrow>
                                 get_test_config test_type parts3 inc bprefix bkvp)))))"

text \<open>
  The whole of \<^verbatim>\<open>classify_matrix_item\<close>: the round-trip comparison and the check that
  the script exists. \<^verbatim>\<open>os.path.exists\<close> is the parameter \<open>path_exists\<close>.
\<close>

definition classify_matrix_item ::
  "(string \<Rightarrow> bool) \<Rightarrow> string \<Rightarrow> bool \<Rightarrow> MatrixItem \<Rightarrow> error + TestConfig" where
  "classify_matrix_item path_exists path is_collection item =
     (case classify_test_config item of
        Inl e \<Rightarrow> Inl e
      | Inr test_config \<Rightarrow>
          (case test test_config of
             Inl e \<Rightarrow> Inl e
           | Inr t \<Rightarrow>
               if MatrixItem.test item \<noteq> t then Inl ReconstructionMismatch
               else
                 (let dir0 = (if is_collection
                              then os_path_join path ''tests/utils/shippable''
                              else os_path_join path ''test/utils/shippable'');
                      script_directory = (if incidental test_config
                                          then os_path_join dir0 ''incidental'' else dir0);
                      script_path = os_path_join script_directory
                                      (TestConfig.type test_config @ ''.sh'')
                  in if \<not> path_exists script_path then Inl MissingScript
                     else Inr test_config)))"

section \<open>Aggregation into stages\<close>

record Target =
  name :: string
  type :: string

text \<open>
  \<^verbatim>\<open>Stage.targets\<close> is a dictionary (insertion order kept). \<^verbatim>\<open>Stage.groups\<close> is a
  Python set: it is kept as a duplicate-free list; the script only takes its length, its
  single element when there is exactly one, and its sorted list.
\<close>

record Stage =
  name :: string
  incidental :: bool
  targets :: "(string \<times> Target) list"
  configs :: "TestConfig list"
  groups :: "string list"

definition target_count :: "Stage \<Rightarrow> nat" where
  "target_count s = length (Stage.targets s)"

definition group_count :: "Stage \<Rightarrow> nat" where
  "group_count s = (if length (Stage.groups s) \<noteq> 0 then length (Stage.groups s) else 1)"

definition job_count :: "Stage \<Rightarrow> nat" where
  "job_count s = target_count s * group_count s"

text \<open>
  One iteration of the first loop of \<^verbatim>\<open>generate_stages\<close>: \<^verbatim>\<open>setdefault\<close> on the
  stage and on the target, the two consistency checks, and the update of the stage.
\<close>

definition aggregate_item ::
  "(string \<times> Stage) list \<Rightarrow> TestConfig \<Rightarrow> error + (string \<times> Stage) list" where
  "aggregate_item stages item =
     (let stage =
            (case map_of stages (stage_name item) of
               Some s \<Rightarrow> s
             | None \<Rightarrow> \<lparr>Stage.name = stage_name item,
                         Stage.incidental = TestConfig.incidental item,
                         Stage.targets = [], Stage.configs = [], Stage.groups = []\<rparr>)
      in if Stage.incidental stage \<noteq> TestConfig.incidental item
         then Inl StageIncidentalConflict
         else
           (let target_name = str_join '' '' (name_components item)
            in (case test_components item of
                  Inl e \<Rightarrow> Inl e
                | Inr comps \<Rightarrow>
                    (let test_type = str_join ''/'' comps;
                         target =
                           (case map_of (Stage.targets stage) target_name of
                              Some t \<Rightarrow> t
                            | None \<Rightarrow> \<lparr>Target.name = target_name,
                                        Target.type = test_type\<rparr>)
                     in if Target.type target \<noteq> test_type then Inl TargetTypeConflict
                        else
                          Inr (AList.update (stage_name item)
                                 (stage
                                    \<lparr>Stage.configs := Stage.configs stage @ [item],
                                     Stage.targets :=
                                       AList.update target_name target (Stage.targets stage),
                                     Stage.groups :=
                                       (case TestConfig.group item of
                                          Some g \<Rightarrow>
                                            if g \<noteq> [] \<and> g \<notin> set (Stage.groups stage)
                                            then Stage.groups stage @ [g]
                                            else Stage.groups stage
                                        | None \<Rightarrow> Stage.groups stage)\<rparr>)
                                 stages)))))"

fun aggregate ::
  "(string \<times> Stage) list \<Rightarrow> TestConfig list \<Rightarrow> error + (string \<times> Stage) list" where
  "aggregate stages [] = Inr stages"
| "aggregate stages (item # items) =
     (case aggregate_item stages item of
        Inl e \<Rightarrow> Inl e
      | Inr stages' \<Rightarrow> aggregate stages' items)"

definition converted_jobs :: "(string \<times> Stage) list \<Rightarrow> nat" where
  "converted_jobs stages = sum_list (map (\<lambda>(n, s). job_count s) stages)"

section \<open>Templates of a stage\<close>

text \<open>
  The loop \<^verbatim>\<open>for i in range(1, 10)\<close> over the component tuples of the configs of a
  stage; \<open>acc\<close> is the prefix kept so far. The set of the slices \<^verbatim>\<open>[0:i]\<close> has one
  element exactly when the duplicate-free list has; reading the last item of an empty
  tuple raises IndexError.
\<close>

fun prefix_scan :: "nat list \<Rightarrow> string list list \<Rightarrow> string list \<Rightarrow> error + string list" where
  "prefix_scan [] comps acc = Inr acc"
| "prefix_scan (i # js) comps acc =
     (case remdups (map (take i) comps) of
        [p] \<Rightarrow>
          if p = [] then Inl IndexError
          else if last p = [] then Inr acc
          else prefix_scan js comps p
      | _ \<Rightarrow> Inr acc)"

fun all_test_components :: "TestConfig list \<Rightarrow> error + string list list" where
  "all_test_components [] = Inr []"
| "all_test_components (c # cs) =
     (case test_components c of
        Inl e \<Rightarrow> Inl e
      | Inr comps \<Rightarrow>
          (case all_test_components cs of
             Inl e \<Rightarrow> Inl e
           | Inr rest \<Rightarrow> Inr (comps # rest)))"

definition test_prefix :: "Stage \<Rightarrow> error + string list" where
  "test_prefix s =
     (case all_test_components (Stage.configs s) of
        Inl e \<Rightarrow> Inl e
      | Inr comps \<Rightarrow> prefix_scan [1..<10] comps [])"

definition name_prefix :: "Stage \<Rightarrow> error + string list" where
  "name_prefix s = prefix_scan [1..<10] (map name_components (Stage.configs s)) []"

text \<open>
  \<^verbatim>\<open>tuple(list(stage.groups)[0], )\<close> calls \<^verbatim>\<open>tuple\<close> on the group string itself (the
  trailing comma belongs to the argument list), so the suffix holds one item per
  character of the group.
\<close>

definition test_suffix :: "Stage \<Rightarrow> string list" where
  "test_suffix s =
     (if Stage.groups s \<noteq> [] \<and> length (Stage.groups s) = 1
      then map (\<lambda>ch. [ch]) (hd (Stage.groups s))
      else [])"

text \<open>
  \<^verbatim>\<open>clean_value\<close> returns an \<^verbatim>\<open>int\<close>, a \<^verbatim>\<open>float\<close> or the string itself. The
  built-ins of Python that it and the comparison of two such values rely on are
  parameters of the model: \<open>py_int\<close> and \<open>py_float\<close> are \<^verbatim>\<open>int(value)\<close> and
  \<^verbatim>\<open>float(value)\<close> on a string, with \<open>None\<close> where the built-in raises ValueError;
  \<open>'f\<close> is the type of the float values; \<open>float_eq\<close> and \<open>int_float_eq\<close> are
  \<^verbatim>\<open>==\<close> between two floats and between an \<^verbatim>\<open>int\<close> and a float.
\<close>

datatype 'f py_value = PyInt int | PyFloat 'f | PyStr string

record 'f builtins =
  py_int :: "string \<Rightarrow> int option"
  py_float :: "string \<Rightarrow> 'f option"
  float_eq :: "'f \<Rightarrow> 'f \<Rightarrow> bool"
  int_float_eq :: "int \<Rightarrow> 'f \<Rightarrow> bool"

definition clean_value :: "'f builtins \<Rightarrow> string \<Rightarrow> 'f py_value" where
  "clean_value b v =
     (case py_int b v of
        Some i \<Rightarrow> PyInt i
      | None \<Rightarrow>
          (case py_float b v of
             Some x \<Rightarrow> PyFloat x
           | None \<Rightarrow> PyStr v))"

text \<open>\<^verbatim>\<open>clean_values\<close>: the strings are sorted as strings, then each is converted.\<close>

definition clean_values :: "'f builtins \<Rightarrow> string list \<Rightarrow> 'f py_value list" where
  "clean_values b vs = map (clean_value b) (sort vs)"

text \<open>
  \<^verbatim>\<open>==\<close> on two values returned by \<^verbatim>\<open>clean_value\<close>: a string equals only the same
  string, two \<^verbatim>\<open>int\<close>s are compared as integers, and a number never equals a string.
\<close>

fun py_equal :: "'f builtins \<Rightarrow> 'f py_value \<Rightarrow> 'f py_value \<Rightarrow> bool" where
  "py_equal b (PyInt i) (PyInt j) = (i = j)"
| "py_equal b (PyFloat x) (PyFloat y) = float_eq b x y"
| "py_equal b (PyInt i) (PyFloat y) = int_float_eq b i y"
| "py_equal b (PyFloat x) (PyInt j) = int_float_eq b j x"
| "py_equal b (PyStr u) (PyStr v) = (u = v)"
| "py_equal b (PyStr u) (PyInt j) = False"
| "py_equal b (PyStr u) (PyFloat y) = False"
| "py_equal b (PyInt i) (PyStr v) = False"
| "py_equal b (PyFloat x) (PyStr v) = False"

text \<open>
  The dictionary \<^verbatim>\<open>target_add\<close> made from the two slices \<^verbatim>\<open>target.name[name_offset:]\<close>
  and \<^verbatim>\<open>target.type[test_offset:]\<close>: both are converted by \<^verbatim>\<open>clean_value\<close>, and the
  key \<^verbatim>\<open>name\<close> is deleted when the two converted values are equal. The pair holds the
  value under \<^verbatim>\<open>name\<close>, if the key is kept, and the value under \<^verbatim>\<open>test\<close>.
\<close>

definition target_add ::
  "'f builtins \<Rightarrow> string \<Rightarrow> string \<Rightarrow> 'f py_value option \<times> 'f py_value" where
  "target_add b name_slice test_slice =
     (let name_value = clean_value b name_slice;
          test_value = clean_value b test_slice
      in (if py_equal b name_value test_value then None else Some name_value, test_value))"

text \<open>
  The local \<^verbatim>\<open>groups\<close>: \<^verbatim>\<open>None\<close> unless the stage has more than one group, and then
  the converted sorted groups.
\<close>

definition groups_value :: "'f builtins \<Rightarrow> Stage \<Rightarrow> 'f py_value list option" where
  "groups_value b s =
     (if Stage.groups s \<noteq> [] \<and> length (Stage.groups s) \<noteq> 1
      then Some (clean_values b (Stage.groups s))
      else None)"

definition test_format :: "string list \<Rightarrow> string list \<Rightarrow> string" where
  "test_format tprefix tsuffix = str_join ''/'' (tprefix @ [''{0}''] @ tsuffix)"

definition test_offset :: "string list \<Rightarrow> nat" where
  "test_offset tprefix =
     (if tprefix \<noteq> [] then length (str_join ''/'' tprefix @ ''/'') else 0)"

definition name_format :: "string list \<Rightarrow> string" where
  "name_format nprefix = str_join '' '' (nprefix @ [''{0}''])"

definition name_offset :: "string list \<Rightarrow> nat" where
  "name_offset nprefix =
     (if nprefix \<noteq> [] then length (str_join '' '' nprefix @ '' '') else 0)"

text \<open>
  The dictionary \<^verbatim>\<open>content_stage\<close> that \<^verbatim>\<open>generate_stages\<close> builds for one stage.
  \<open>targets\<close> holds the dictionaries \<^verbatim>\<open>target_add\<close> in the order of the targets of the
  stage. The optional fields are the keys that the script deletes from the dictionary:
  the display name equal to the identifier, a format that is only the placeholder, and
  groups that are \<^verbatim>\<open>None\<close>. The constant entries (\<^verbatim>\<open>dependsOn\<close>, the template name) are
  left out.
\<close>

record 'f ContentStage =
  stage :: string
  displayName :: "string option"
  nameFormat :: "string option"
  testFormat :: "string option"
  targets :: "('f py_value option \<times> 'f py_value) list"
  groups :: "'f py_value list option"

definition content_stage :: "'f builtins \<Rightarrow> Stage \<Rightarrow> error + 'f ContentStage" where
  "content_stage b s =
     (case test_prefix s of
        Inl e \<Rightarrow> Inl e
      | Inr tprefix \<Rightarrow>
          (case name_prefix s of
             Inl e \<Rightarrow> Inl e
           | Inr nprefix \<Rightarrow>
               (let tformat = test_format tprefix (test_suffix s);
                    nformat = name_format nprefix;
                    gs = groups_value b s;
                    ident = str_replace ''.'' ''_'' (str_replace '' '' ''_'' (Stage.name s))
                in Inr \<lparr>ContentStage.stage = ident,
                        ContentStage.displayName =
                          (if Stage.name s = ident then None else Some (Stage.name s)),
                        ContentStage.nameFormat =
                          (if nformat = ''{0}'' then None else Some nformat),
                        ContentStage.testFormat =
                          (if tformat = ''{0}'' then None else Some tformat),
                        ContentStage.targets =
                          map (\<lambda>(n, t).
                                 target_add b
                                   (drop (name_offset nprefix) (Target.name t))
                                   (drop (test_offset tprefix) (Target.type t)))
                              (Stage.targets s),
                        ContentStage.groups = gs\<rparr>)))"

fun content_stages ::
  "'f builtins \<Rightarrow> (string \<times> Stage) list \<Rightarrow> error + 'f ContentStage list" where
  "content_stages b [] = Inr []"
| "content_stages b ((n, s) # stages) =
     (case content_stage b s of
        Inl e \<Rightarrow> Inl e
      | Inr c \<Rightarrow>
          (case content_stages b stages of
             Inl e \<Rightarrow> Inl e
           | Inr cs \<Rightarrow> Inr (c # cs)))"

text \<open>
  \<^verbatim>\<open>generate_stages\<close>: the result carries the warnings written to standard error
  (converted and original job counts) beside the content stages. The progress lines
  printed to standard output and the constant summary stage are left out. The built-ins
  \<open>b\<close> are used only for the values of the targets and the groups.
\<close>

datatype warning = MatrixCountSurplus nat nat

definition generate_stages ::
  "'f builtins \<Rightarrow> TestConfig list \<Rightarrow> error + (warning list \<times> 'f ContentStage list)" where
  "generate_stages b classified_matrix =
     (case aggregate [] classified_matrix of
        Inl e \<Rightarrow> Inl e
      | Inr stages \<Rightarrow>
          if converted_jobs stages < length classified_matrix then Inl MatrixCountMismatch
          else
            (let warnings =
                   (if converted_jobs stages > length classified_matrix
                    then [MatrixCountSurplus (converted_jobs stages) (length classified_matrix)]
                    else [])
             in (case content_stages b stages of
                   Inl e \<Rightarrow> Inl e
                 | Inr content \<Rightarrow> Inr (warnings, content))))"

section \<open>Reference definitions taken from the specification\<close>

text \<open>
  The reading of one token of a raw entry given in the specification of the decoder:
  the key is the text before the first \<^verbatim>\<open>=\<close>, the value is everything after it.
\<close>

definition spec_key_value :: "string \<Rightarrow> string \<times> string" where
  "spec_key_value tok =
     (takeWhile (\<lambda>c. c \<noteq> CHR ''='') tok, tl (dropWhile (\<lambda>c. c \<noteq> CHR ''='') tok))"

text \<open>
  The display-stage-name rule of the specification: the resolved branch is the branch
  prefix or else the value of the branch pair; a leading \<^verbatim>\<open>stable-\<close> is stripped from
  it; it is appended to the stage label after a space; an incidental test then gets the
  prefix \<^verbatim>\<open>Incidental\<close> and a space when its stage label is split-incidental, and the
  literal \<^verbatim>\<open>Incidental\<close> as its whole name otherwise.
\<close>

definition spec_strip_stable :: "string \<Rightarrow> string" where
  "spec_strip_stable b =
     (if prefix ''stable-'' b then drop (length ''stable-'') b else b)"

definition spec_stage_name :: "TestConfig \<Rightarrow> string" where
  "spec_stage_name c =
     (let resolved =
            (case branch_prefix c of
               Some b \<Rightarrow> Some b
             | None \<Rightarrow> (case branch_kvp c of Some (k, v) \<Rightarrow> Some v | None \<Rightarrow> None));
          base =
            (case resolved of
               Some b \<Rightarrow> stage_label c @ '' '' @ spec_strip_stable b
             | None \<Rightarrow> stage_label c)
      in if TestConfig.incidental c
         then (if stage_label c \<in> set split_incidental
               then ''Incidental '' @ base
               else ''Incidental'')
         else base)"

section \<open>Invariant of the fold\<close>

text \<open>
  The invariant of the stages built by the first loop of \<^verbatim>\<open>generate_stages\<close>: the
  components of every folded config can be computed, and every target carries the
  joined name components and the joined test components of one of the folded configs.
\<close>

definition stage_invariant :: "Stage \<Rightarrow> bool" where
  "stage_invariant s \<longleftrightarrow>
     (\<forall>c\<in>set (Stage.configs s). \<exists>comps. test_components c = Inr comps)
     \<and> (\<forall>(tn, t)\<in>set (Stage.targets s).
           Target.name t = tn
           \<and> (\<exists>c\<in>set (Stage.configs s). \<exists>comps.
                 test_components c = Inr comps
                 \<and> Target.type t = str_join ''/'' comps
                 \<and> Target.name t = str_join '' '' (name_components c)))"

section \<open>Example descriptors\<close>

text \<open>
  The descriptors that the classifier returns for the entries \<^verbatim>\<open>T=sanity\<close> and
  \<^verbatim>\<open>T=units/<version>/<group>\<close>.
\<close>

definition sanity_config :: TestConfig where
  "sanity_config =
     \<lparr>stage_label = ''Sanity'', job_label = ''Test'', type = ''sanity'',
      platform = None, version = None, group = None,
      incidental = False, branch_prefix = None, branch_kvp = None\<rparr>"

definition units_config :: "string \<Rightarrow> string \<Rightarrow> TestConfig" where
  "units_config v g =
     \<lparr>stage_label = ''Units'', job_label = ''Python'', type = ''units'',
      platform = None, version = Some v, group = Some g,
      incidental = False, branch_prefix = None, branch_kvp = None\<rparr>"


text \<open>
  The descriptor that the classifier returns for \<^verbatim>\<open>T=linux/centos7\<close> (not incidental)
  and for \<^verbatim>\<open>T=i/linux/centos7\<close> (incidental).
\<close>

definition centos7_config :: "bool \<Rightarrow> TestConfig" where
  "centos7_config inc =
     \<lparr>stage_label = ''Docker'', job_label = ''CentOS'', type = ''linux'',
      platform = Some ''centos'', version = Some ''7'', group = None,
      incidental = inc, branch_prefix = None, branch_kvp = None\<rparr>"




section \<open>Strings: splitting and joining\<close>

lemma str_split_nonempty: "str_split sep s \<noteq> []"
  by (induction s) (auto split: list.splits)

lemma str_join_Cons_Cons: "str_join sep ((c # w) # ws) = c # str_join sep (w # ws)"
  by (cases ws) auto

lemma str_join_split: "str_join [sep] (str_split sep s) = s"
proof (induction s)
  case Nil
  then show ?case by simp
next
  case (Cons c cs)
  obtain w ws where ws: "str_split sep cs = w # ws"
    using str_split_nonempty [of sep cs] by (cases "str_split sep cs") auto
  show ?case
  proof (cases "c = sep")
    case True
    then show ?thesis using Cons ws by simp
  next
    case False
    then show ?thesis using Cons ws by (simp add: str_join_Cons_Cons)
  qed
qed

lemma length_str_split: "length (str_split sep s) = Suc (count_list s sep)"
  by (induction s) (auto split: list.splits)

lemma str_split_no_sep: "sep \<notin> set s \<Longrightarrow> str_split sep s = [s]"
  by (induction s) auto

lemma str_split_first:
  "sep \<in> set s \<Longrightarrow>
     str_split sep s
       = takeWhile (\<lambda>c. c \<noteq> sep) s # str_split sep (tl (dropWhile (\<lambda>c. c \<noteq> sep) s))"
proof (induction s)
  case Nil
  then show ?case by simp
next
  case (Cons c cs)
  show ?case
  proof (cases "c = sep")
    case True
    then show ?thesis by simp
  next
    case False
    with Cons have "sep \<in> set cs" by simp
    with Cons False show ?thesis by simp
  qed
qed

lemma count_list_tl_dropWhile:
  "sep \<in> set s \<Longrightarrow> count_list s sep = Suc (count_list (tl (dropWhile (\<lambda>c. c \<noteq> sep) s)) sep)"
  by (induction s) auto

lemma str_split_one:
  assumes "count_list tok sep = 1"
  shows "str_split sep tok
           = [takeWhile (\<lambda>c. c \<noteq> sep) tok, tl (dropWhile (\<lambda>c. c \<noteq> sep) tok)]"
proof -
  have m: "sep \<in> set tok" using assms by (metis count_list_0_iff zero_neq_one)
  then have "count_list (tl (dropWhile (\<lambda>c. c \<noteq> sep) tok)) sep = 0"
    using assms count_list_tl_dropWhile [of sep tok] by simp
  then have "sep \<notin> set (tl (dropWhile (\<lambda>c. c \<noteq> sep) tok))"
    by (simp add: count_list_0_iff)
  then show ?thesis using m by (simp add: str_split_first str_split_no_sep)
qed

section \<open>The matrix entry decoder\<close>

lemma dict_ValueError:
  "dict kvps acc = Inl e \<longleftrightarrow> e = ValueError \<and> (\<exists>kvp\<in>set kvps. length kvp \<noteq> 2)"
proof (induction kvps arbitrary: acc)
  case Nil
  then show ?case by simp
next
  case (Cons kvp kvps)
  show ?case
  proof (cases "length kvp = 2")
    case True
    then obtain k v where "kvp = [k, v]"
      by (cases kvp; cases "tl kvp"; cases "tl (tl kvp)") auto
    then show ?thesis using Cons by simp
  next
    case False
    then have "dict (kvp # kvps) acc = Inl ValueError"
      by (cases kvp; cases "tl kvp"; cases "tl (tl kvp)") auto
    then show ?thesis using False by auto
  qed
qed

lemma dict_pairs:
  "dict (map (\<lambda>(k, v). [k, v]) kvs) acc = Inr (fold (\<lambda>(k, v). AList.update k v) kvs acc)"
  by (induction kvs arbitrary: acc) auto

lemma map_of_fold_update:
  "map_of (fold (\<lambda>(k, v). AList.update k v) kvs acc) = map_of acc ++ map_of (rev kvs)"
proof (induction kvs arbitrary: acc)
  case Nil
  then show ?case by simp
next
  case (Cons kv kvs)
  obtain k v where kv: "kv = (k, v)" by (cases kv)
  have "map_of (fold (\<lambda>(k, v). AList.update k v) (kv # kvs) acc)
          = map_of (AList.update k v acc) ++ map_of (rev kvs)"
    using Cons.IH [of "AList.update k v acc"] kv by simp
  also have "\<dots> = map_of acc ++ (map_of (rev kvs @ [(k, v)]))"
    by (simp add: update_conv' map_add_upd_left [symmetric] map_add_assoc del: map_add_upd_left)
  finally show ?case using kv by simp
qed

lemma split_tokens:
  assumes "\<forall>tok\<in>set toks. count_list tok CHR ''='' = 1"
  shows "map (str_split CHR ''='') toks = map (\<lambda>(k, v). [k, v]) (map spec_key_value toks)"
  using assms by (induction toks) (auto simp: str_split_one spec_key_value_def)

lemma parse_matrix_item_ValueError:
  "parse_matrix_item r = Inl ValueError \<longleftrightarrow>
     (\<exists>tok\<in>set (str_split CHR '' '' r). count_list tok CHR ''='' \<noteq> 1)"
proof -
  have "parse_matrix_item r = Inl ValueError \<longleftrightarrow>
          dict (map (str_split CHR ''='') (str_split CHR '' '' r)) [] = Inl ValueError"
    by (auto simp: parse_matrix_item_def split: sum.splits option.splits)
  then show ?thesis by (simp add: dict_ValueError length_str_split)
qed

lemma parse_matrix_item_tokens:
  assumes "\<forall>tok\<in>set (str_split CHR '' '' r). count_list tok CHR ''='' = 1"
  shows "parse_matrix_item r =
     (case map_of (rev (map spec_key_value (str_split CHR '' '' r))) ''T'' of
        None \<Rightarrow> Inl KeyError
      | Some t \<Rightarrow>
          Inr \<lparr>MatrixItem.raw = r, MatrixItem.test = t,
               MatrixItem.values =
                 AList.delete ''T''
                   (fold (\<lambda>(k, v). AList.update k v)
                      (map spec_key_value (str_split CHR '' '' r)) []),
               MatrixItem.parts = str_split CHR ''/'' t\<rparr>)"
proof -
  have d: "dict (map (str_split CHR ''='') (str_split CHR '' '' r)) []
             = Inr (fold (\<lambda>(k, v). AList.update k v)
                      (map spec_key_value (str_split CHR '' '' r)) [])"
    by (simp only: split_tokens [OF assms] dict_pairs)
  show ?thesis unfolding parse_matrix_item_def d by (simp add: map_of_fold_update)
qed

text \<open>
  Claim C5, as amended. The decoder splits the raw entry on spaces and every token on
  every \<^verbatim>\<open>=\<close>. It fails with ValueError exactly when some token does not contain
  exactly one \<^verbatim>\<open>=\<close>; when it succeeds, every token therefore splits into its key and
  the whole remainder after its only \<^verbatim>\<open>=\<close>. Two tokens with the same key are not an
  error: the decoded mapping (with \<^verbatim>\<open>T\<close> put back) sends each key to the value of the
  last token that carries it. The path is the \<^verbatim>\<open>T\<close> value split on \<^verbatim>\<open>/\<close>.
\<close>

theorem parse_matrix_item_decoding:
  "(parse_matrix_item r = Inl ValueError \<longleftrightarrow>
      (\<exists>tok\<in>set (str_split CHR '' '' r). count_list tok CHR ''='' \<noteq> 1))
   \<and> (parse_matrix_item r = Inr item \<longrightarrow>
        (\<forall>tok\<in>set (str_split CHR '' '' r).
            str_split CHR ''='' tok = [fst (spec_key_value tok), snd (spec_key_value tok)])
        \<and> map_of ((''T'', MatrixItem.test item) # MatrixItem.values item)
            = map_of (rev (map spec_key_value (str_split CHR '' '' r)))
        \<and> MatrixItem.parts item = str_split CHR ''/'' (MatrixItem.test item))"
proof (intro conjI impI)
  show "parse_matrix_item r = Inl ValueError \<longleftrightarrow>
      (\<exists>tok\<in>set (str_split CHR '' '' r). count_list tok CHR ''='' \<noteq> 1)"
    by (rule parse_matrix_item_ValueError)
next
  assume ok: "parse_matrix_item r = Inr item"
  have one: "\<forall>tok\<in>set (str_split CHR '' '' r). count_list tok CHR ''='' = 1"
  proof (rule ccontr)
    assume "\<not> ?thesis"
    then have "parse_matrix_item r = Inl ValueError"
      using parse_matrix_item_ValueError by blast
    with ok show False by simp
  qed
  then show "\<forall>tok\<in>set (str_split CHR '' '' r).
      str_split CHR ''='' tok = [fst (spec_key_value tok), snd (spec_key_value tok)]"
    by (simp add: str_split_one spec_key_value_def)
  let ?m = "map_of (rev (map spec_key_value (str_split CHR '' '' r)))"
  let ?vals = "fold (\<lambda>(k, v). AList.update k v) (map spec_key_value (str_split CHR '' '' r)) []"
  from ok parse_matrix_item_tokens [OF one]
  obtain t where t: "?m ''T'' = Some t"
    and item: "item = \<lparr>MatrixItem.raw = r, MatrixItem.test = t,
                 MatrixItem.values = AList.delete ''T'' ?vals,
                 MatrixItem.parts = str_split CHR ''/'' t\<rparr>"
    by (cases "?m ''T''") auto
  show "MatrixItem.parts item = str_split CHR ''/'' (MatrixItem.test item)"
    using item by simp
  have "map_of ?vals = ?m" by (simp add: map_of_fold_update)
  then show "map_of ((''T'', MatrixItem.test item) # MatrixItem.values item) = ?m"
    using item t by (auto simp: delete_conv' fun_eq_iff)
qed

text \<open>
  An entry with the key \<^verbatim>\<open>A_REV\<close> twice is decoded, the later value winning; a token
  with an empty key is accepted; a token without \<^verbatim>\<open>=\<close> is refused.
\<close>

theorem parse_matrix_item_decoding_witness:
  "parse_matrix_item ''T=aws/2.7/1 A_REV=2.9 A_REV=devel'' =
     Inr \<lparr>MatrixItem.raw = ''T=aws/2.7/1 A_REV=2.9 A_REV=devel'',
          MatrixItem.test = ''aws/2.7/1'',
          MatrixItem.values = [(''A_REV'', ''devel'')],
          MatrixItem.parts = [''aws'', ''2.7'', ''1'']\<rparr>
   \<and> map_of [(''T'', ''aws/2.7/1''), (''A_REV'', ''devel'')]
       = map_of (rev (map spec_key_value
                   (str_split CHR '' '' ''T=aws/2.7/1 A_REV=2.9 A_REV=devel'')))
   \<and> parse_matrix_item ''T=sanity =x'' \<noteq> Inl ValueError
   \<and> parse_matrix_item ''T=sanity x'' = Inl ValueError"
proof -
  let ?r = "''T=aws/2.7/1 A_REV=2.9 A_REV=devel''"
  let ?item = "\<lparr>MatrixItem.raw = ?r, MatrixItem.test = ''aws/2.7/1'',
          MatrixItem.values = [(''A_REV'', ''devel'')],
          MatrixItem.parts = [''aws'', ''2.7'', ''1'']\<rparr>"
  have e: "parse_matrix_item ?r = Inr ?item" by code_simp
  have t1: "\<forall>tok\<in>set (str_split CHR '' '' ''T=sanity =x''). count_list tok CHR ''='' = 1"
    by simp
  have t2: "\<exists>tok\<in>set (str_split CHR '' '' ''T=sanity x''). count_list tok CHR ''='' \<noteq> 1"
    by simp
  have "map_of ((''T'', MatrixItem.test ?item) # MatrixItem.values ?item)
          = map_of (rev (map spec_key_value (str_split CHR '' '' ?r)))"
    using parse_matrix_item_decoding [of ?r ?item] e by blast
  then have c1: "map_of [(''T'', ''aws/2.7/1''), (''A_REV'', ''devel'')]
          = map_of (rev (map spec_key_value (str_split CHR '' '' ?r)))"
    by simp
  have c2: "parse_matrix_item ''T=sanity =x'' \<noteq> Inl ValueError"
    using parse_matrix_item_decoding [of "''T=sanity =x''"] t1 by blast
  have c3: "parse_matrix_item ''T=sanity x'' = Inl ValueError"
    using parse_matrix_item_decoding [of "''T=sanity x''"] t2 by blast
  show ?thesis using e c1 c2 c3 by blast
qed

text \<open>
  Claim C5 as first stated fails: an entry whose two tokens both carry the key \<^verbatim>\<open>T\<close>
  is decoded without error (the second value is kept), and a token with two \<^verbatim>\<open>=\<close> is
  refused instead of mapping its key to the remainder \<^verbatim>\<open>a=b\<close>.
\<close>

theorem parse_matrix_item_counterexample:
  "parse_matrix_item ''T=sanity T=units'' =
     Inr \<lparr>MatrixItem.raw = ''T=sanity T=units'', MatrixItem.test = ''units'',
          MatrixItem.values = [], MatrixItem.parts = [''units'']\<rparr>
   \<and> parse_matrix_item ''T=sanity X=a=b'' = Inl ValueError"
  by code_simp

section \<open>The classifier\<close>

lemma test_types_linux: "test_types ''linux'' = Some (''Docker'', '''')"
  by (simp add: test_types_def)

lemma i_not_branch: "''i'' \<notin> set ansible_branches"
  by (simp add: ansible_branches_def)

lemma get_test_config_not_IndexError: "get_test_config tt ps inc bp bk \<noteq> Inl IndexError"
  by (induction "fst (the (test_types tt))" ps rule: decode_parts.induct)
     (auto simp: get_test_config_def split: option.splits sum.splits prod.splits if_splits)

lemma test_not_IndexError: "test c \<noteq> Inl IndexError"
  by (auto simp: test_def test_components_def Let_def split: option.splits sum.splits if_splits)

lemma get_test_config_components:
  "get_test_config tt ps inc bp bk = Inr tc \<Longrightarrow> \<exists>comps. test_components tc = Inr comps"
  by (auto simp: get_test_config_def test_components_def Let_def
           split: option.splits sum.splits prod.splits if_splits)

lemma find_branch_kvp_Some:
  "find_branch_kvp kvs = Some (k, v) \<Longrightarrow> v \<in> set ansible_branches"
  by (induction kvs rule: find_branch_kvp.induct) (auto split: if_splits)

text \<open>
  Every descriptor that leaves \<^const>\<open>classify_test_config\<close> was built by
  \<^const>\<open>get_test_config\<close> with a branch prefix or a branch pair (not both) taken from
  the recognised branches.
\<close>

lemma classify_test_config_get:
  assumes "classify_test_config item = Inr tc"
  shows "\<exists>tt ps inc bp bk. get_test_config tt ps inc bp bk = Inr tc
           \<and> (case bp of None \<Rightarrow> True | Some b \<Rightarrow> b \<in> set ansible_branches \<and> bk = None)
           \<and> (case bk of None \<Rightarrow> True | Some (k, v) \<Rightarrow> v \<in> set ansible_branches)"
proof -
  obtain p0 rest0 where p: "parts item = p0 # rest0"
    using assms by (cases "parts item") (auto simp: classify_test_config_def)
  show ?thesis
  proof (cases "p0 \<in> set ansible_branches")
    case True
    with assms p show ?thesis
      by (fastforce simp: classify_test_config_def Let_def split: list.splits if_splits)
  next
    case False
    show ?thesis
    proof (cases "find_branch_kvp (MatrixItem.values item)")
      case None
      with assms p False show ?thesis
        by (fastforce simp: classify_test_config_def Let_def split: list.splits if_splits)
    next
      case (Some kv)
      obtain k v where kv: "kv = (k, v)" by (cases kv)
      have "v \<in> set ansible_branches" using Some kv find_branch_kvp_Some by blast
      with assms p False Some kv show ?thesis
        by (fastforce simp: classify_test_config_def Let_def split: list.splits if_splits)
    qed
  qed
qed

lemma classify_test_config_test:
  assumes "classify_test_config item = Inr tc"
  shows "\<exists>s. test tc = Inr s"
proof -
  obtain comps where "test_components tc = Inr comps"
    using assms classify_test_config_get get_test_config_components by blast
  then show ?thesis by (simp add: test_def Let_def)
qed

lemma classify_matrix_item_config:
  "classify_matrix_item path_exists path is_collection item = Inr tc
     \<Longrightarrow> classify_test_config item = Inr tc"
  by (auto simp: classify_matrix_item_def Let_def split: sum.splits if_splits)

lemma classify_test_config_IndexError_iff:
  "classify_test_config item = Inl IndexError \<longleftrightarrow>
     parts item = []
     \<or> (\<exists>b\<in>set ansible_branches.
          (parts item = [b] \<or> parts item = [b, ''i'']) \<and> MatrixItem.values item = [])
     \<or> (parts item = [''i''] \<and>
         (case find_branch_kvp (MatrixItem.values item) of
            Some (k, v) \<Rightarrow> AList.delete k (MatrixItem.values item) = []
          | None \<Rightarrow> MatrixItem.values item = []))"
proof (cases "parts item")
  case Nil
  then show ?thesis by (simp add: classify_test_config_def)
next
  case (Cons p0 rest0)
  show ?thesis
  proof (cases "p0 \<in> set ansible_branches")
    case True
    then have ni: "p0 \<noteq> ''i''" using i_not_branch by auto
    show ?thesis using Cons True ni i_not_branch
      by (cases rest0; cases "tl rest0")
         (auto simp: classify_test_config_def get_test_config_not_IndexError
               split: list.splits)
  next
    case False
    show ?thesis using Cons False
      by (cases rest0)
         (auto simp: classify_test_config_def get_test_config_not_IndexError Let_def
               split: list.splits option.splits prod.splits if_splits)
  qed
qed

text \<open>
  Claim C1. A matrix entry that \<^const>\<open>classify_matrix_item\<close> accepts has a descriptor
  whose reconstructed path \<^const>\<open>test\<close> is the original path string of the entry, and
  (for an entry made by the decoder, whose segments are that string split on \<^verbatim>\<open>/\<close>)
  the slash-joined segments. The reconstruction of a descriptor that the classifier
  built never raises, and whenever it differs from the original path the classification
  fails with ReconstructionMismatch.
\<close>

theorem classify_matrix_item_round_trip:
  "(classify_matrix_item path_exists path is_collection item = Inr tc \<longrightarrow>
      test tc = Inr (MatrixItem.test item)
      \<and> (parts item = str_split CHR ''/'' (MatrixItem.test item) \<longrightarrow>
           test tc = Inr (str_join ''/'' (parts item))))
   \<and> (classify_test_config item = Inr tc \<longrightarrow>
        (\<exists>s. test tc = Inr s)
        \<and> (test tc \<noteq> Inr (MatrixItem.test item) \<longrightarrow>
             classify_matrix_item path_exists path is_collection item
               = Inl ReconstructionMismatch))"
proof (intro conjI impI)
  assume a: "classify_matrix_item path_exists path is_collection item = Inr tc"
  then show t: "test tc = Inr (MatrixItem.test item)"
    by (auto simp: classify_matrix_item_def Let_def split: sum.splits if_splits)
  assume "parts item = str_split CHR ''/'' (MatrixItem.test item)"
  then show "test tc = Inr (str_join ''/'' (parts item))"
    using t str_join_split [of "CHR ''/''" "MatrixItem.test item"] by simp
next
  assume a: "classify_test_config item = Inr tc"
  then show "\<exists>s. test tc = Inr s" by (rule classify_test_config_test)
  then obtain s where s: "test tc = Inr s" by blast
  assume "test tc \<noteq> Inr (MatrixItem.test item)"
  then show "classify_matrix_item path_exists path is_collection item
               = Inl ReconstructionMismatch"
    using a s by (auto simp: classify_matrix_item_def)
qed

text \<open>
  The entry \<^verbatim>\<open>T=linux/ubuntu1604/1\<close> is accepted and reconstructed; the entry
  \<^verbatim>\<open>T=units/2.7/\<close>, whose empty group is dropped by the reconstruction, is refused.
\<close>

theorem classify_matrix_item_round_trip_witness:
  "classify_matrix_item (\<lambda>p. True) ''repo'' True
      \<lparr>MatrixItem.raw = ''T=linux/ubuntu1604/1'', MatrixItem.test = ''linux/ubuntu1604/1'',
       MatrixItem.values = [], MatrixItem.parts = [''linux'', ''ubuntu1604'', ''1'']\<rparr>
     = Inr \<lparr>stage_label = ''Docker'', job_label = ''Ubuntu'', type = ''linux'',
            platform = Some ''ubuntu'', version = Some ''16.04'', group = Some ''1'',
            incidental = False, branch_prefix = None, branch_kvp = None\<rparr>
   \<and> test \<lparr>stage_label = ''Docker'', job_label = ''Ubuntu'', type = ''linux'',
            platform = Some ''ubuntu'', version = Some ''16.04'', group = Some ''1'',
            incidental = False, branch_prefix = None, branch_kvp = None\<rparr>
       = Inr ''linux/ubuntu1604/1''
   \<and> classify_matrix_item (\<lambda>p. True) ''repo'' True
      \<lparr>MatrixItem.raw = ''T=units/2.7/'', MatrixItem.test = ''units/2.7/'',
       MatrixItem.values = [], MatrixItem.parts = [''units'', ''2.7'', '''']\<rparr>
     = Inl ReconstructionMismatch"
proof -
  let ?item1 = "\<lparr>MatrixItem.raw = ''T=linux/ubuntu1604/1'',
       MatrixItem.test = ''linux/ubuntu1604/1'',
       MatrixItem.values = [], MatrixItem.parts = [''linux'', ''ubuntu1604'', ''1'']\<rparr>"
  let ?tc1 = "\<lparr>stage_label = ''Docker'', job_label = ''Ubuntu'', type = ''linux'',
            platform = Some ''ubuntu'', version = Some ''16.04'', group = Some ''1'',
            incidental = False, branch_prefix = None, branch_kvp = None\<rparr>"
  let ?item2 = "\<lparr>MatrixItem.raw = ''T=units/2.7/'', MatrixItem.test = ''units/2.7/'',
       MatrixItem.values = [], MatrixItem.parts = [''units'', ''2.7'', '''']\<rparr>"
  let ?tc2 = "\<lparr>stage_label = ''Units'', job_label = ''Python'', type = ''units'',
            platform = None, version = Some ''2.7'', group = Some '''',
            incidental = False, branch_prefix = None, branch_kvp = None\<rparr>"
  have e1: "classify_matrix_item (\<lambda>p. True) ''repo'' True ?item1 = Inr ?tc1"
    by code_simp
  have e2: "classify_test_config ?item2 = Inr ?tc2"
    by code_simp
  have e3: "test ?tc2 \<noteq> Inr (MatrixItem.test ?item2)"
    by code_simp
  have c1: "test ?tc1 = Inr ''linux/ubuntu1604/1''"
    using classify_matrix_item_round_trip [of "\<lambda>p. True" "''repo''" True ?item1 ?tc1] e1
    by simp
  have c2: "classify_matrix_item (\<lambda>p. True) ''repo'' True ?item2 = Inl ReconstructionMismatch"
    using classify_matrix_item_round_trip [of "\<lambda>p. True" "''repo''" True ?item2 ?tc2] e2 e3
    by blast
  show ?thesis using e1 c1 c2 by blast
qed

text \<open>
  Claim C6. For a type of the table other than \<^verbatim>\<open>linux\<close>: one remaining segment becomes
  the version, except that under the job label \<^verbatim>\<open>Python\<close> a segment without a period
  becomes the group; two segments become (version, group); three become (platform,
  version, group). For \<^verbatim>\<open>linux\<close> the segments take the same places, the version
  segment then being the docker alias that is resolved (an empty alias or a non-empty
  platform is refused). More than three segments are refused for every type.
\<close>

theorem get_test_config_arity:
  assumes "test_types test_type = Some (sl, jl)"
  shows
    "(test_type \<noteq> ''linux'' \<longrightarrow>
        get_test_config test_type [p] inc bp bk =
          Inr \<lparr>stage_label = sl, job_label = jl, type = test_type, platform = None,
               version = (if jl = ''Python'' \<and> CHR ''.'' \<notin> set p then None else Some p),
               group = (if jl = ''Python'' \<and> CHR ''.'' \<notin> set p then Some p else None),
               incidental = inc, branch_prefix = bp, branch_kvp = bk\<rparr>
        \<and> get_test_config test_type [v, g] inc bp bk =
          Inr \<lparr>stage_label = sl, job_label = jl, type = test_type, platform = None,
               version = Some v, group = Some g,
               incidental = inc, branch_prefix = bp, branch_kvp = bk\<rparr>
        \<and> get_test_config test_type [pl, v, g] inc bp bk =
          Inr \<lparr>stage_label = sl, job_label = jl, type = test_type, platform = Some pl,
               version = Some v, group = Some g,
               incidental = inc, branch_prefix = bp, branch_kvp = bk\<rparr>)
     \<and> (test_type = ''linux'' \<longrightarrow>
        get_test_config test_type [p] inc bp bk =
          (if p = [] then Inl UnexpectedParameters
           else case docker_types p of
                  None \<Rightarrow> Inl UnknownDockerAlias
                | Some (dn, dv) \<Rightarrow>
                    Inr \<lparr>stage_label = sl, job_label = dn, type = test_type,
                         platform = Some (str_lower dn), version = Some dv, group = None,
                         incidental = inc, branch_prefix = bp, branch_kvp = bk\<rparr>)
        \<and> get_test_config test_type [v, g] inc bp bk =
          (if v = [] then Inl UnexpectedParameters
           else case docker_types v of
                  None \<Rightarrow> Inl UnknownDockerAlias
                | Some (dn, dv) \<Rightarrow>
                    Inr \<lparr>stage_label = sl, job_label = dn, type = test_type,
                         platform = Some (str_lower dn), version = Some dv, group = Some g,
                         incidental = inc, branch_prefix = bp, branch_kvp = bk\<rparr>)
        \<and> (pl \<noteq> [] \<longrightarrow>
             get_test_config test_type [pl, v, g] inc bp bk = Inl UnexpectedParameters))
     \<and> (3 < length ps \<longrightarrow> get_test_config test_type ps inc bp bk = Inl UnhandledArity)"
proof (intro conjI impI)
  assume "3 < length ps"
  then obtain a b c d rest where "ps = a # b # c # d # rest"
    by (cases ps; cases "tl ps"; cases "tl (tl ps)"; cases "tl (tl (tl ps))") auto
  then show "get_test_config test_type ps inc bp bk = Inl UnhandledArity"
    using assms by (simp add: get_test_config_def)
qed (use assms in \<open>auto simp: get_test_config_def test_types_linux split: option.splits\<close>)

text \<open>
  Scenarios B and C of the specification (\<^verbatim>\<open>units/3.6\<close> and \<^verbatim>\<open>units/1\<close>), a
  non-Python single segment (\<^verbatim>\<open>sanity/1\<close>), a path with four segments, Scenario D
  (\<^verbatim>\<open>linux/centos7\<close>) and a \<^verbatim>\<open>linux\<close> path with a platform segment.
\<close>

theorem get_test_config_arity_witness:
  "test_types ''units'' = Some (''Units'', ''Python'')
   \<and> test_types ''sanity'' = Some (''Sanity'', ''Test'')
   \<and> get_test_config ''units'' [''3.6''] False None None
       = Inr \<lparr>stage_label = ''Units'', job_label = ''Python'', type = ''units'',
              platform = None, version = Some ''3.6'', group = None,
              incidental = False, branch_prefix = None, branch_kvp = None\<rparr>
   \<and> get_test_config ''units'' [''1''] False None None
       = Inr \<lparr>stage_label = ''Units'', job_label = ''Python'', type = ''units'',
              platform = None, version = None, group = Some ''1'',
              incidental = False, branch_prefix = None, branch_kvp = None\<rparr>
   \<and> get_test_config ''sanity'' [''1''] False None None
       = Inr \<lparr>stage_label = ''Sanity'', job_label = ''Test'', type = ''sanity'',
              platform = None, version = Some ''1'', group = None,
              incidental = False, branch_prefix = None, branch_kvp = None\<rparr>
   \<and> get_test_config ''units'' [''a'', ''b'', ''c'', ''d''] False None None
       = Inl UnhandledArity
   \<and> get_test_config ''linux'' [''centos7''] False None None
       = Inr \<lparr>stage_label = ''Docker'', job_label = ''CentOS'', type = ''linux'',
              platform = Some ''centos'', version = Some ''7'', group = None,
              incidental = False, branch_prefix = None, branch_kvp = None\<rparr>
   \<and> get_test_config ''linux'' [''x'', ''centos7'', ''1''] False None None
       = Inl UnexpectedParameters"
proof -
  have u: "test_types ''units'' = Some (''Units'', ''Python'')"
    by (simp add: test_types_def)
  have s: "test_types ''sanity'' = Some (''Sanity'', ''Test'')"
    by (simp add: test_types_def)
  have l: "3 < length [''a'', ''b'', ''c'', ''d'']" by simp
  have d: "docker_types ''centos7'' = Some (''CentOS'', ''7'')"
    by (simp add: docker_types_def)
  have lo: "str_lower ''CentOS'' = ''centos''" by code_simp
  have x: "''x'' \<noteq> []" by simp
  have c1: "get_test_config ''units'' [''3.6''] False None None
       = Inr \<lparr>stage_label = ''Units'', job_label = ''Python'', type = ''units'',
              platform = None, version = Some ''3.6'', group = None,
              incidental = False, branch_prefix = None, branch_kvp = None\<rparr>
   \<and> get_test_config ''units'' [''1''] False None None
       = Inr \<lparr>stage_label = ''Units'', job_label = ''Python'', type = ''units'',
              platform = None, version = None, group = Some ''1'',
              incidental = False, branch_prefix = None, branch_kvp = None\<rparr>
   \<and> get_test_config ''sanity'' [''1''] False None None
       = Inr \<lparr>stage_label = ''Sanity'', job_label = ''Test'', type = ''sanity'',
              platform = None, version = Some ''1'', group = None,
              incidental = False, branch_prefix = None, branch_kvp = None\<rparr>
   \<and> get_test_config ''units'' [''a'', ''b'', ''c'', ''d''] False None None
       = Inl UnhandledArity"
    using get_test_config_arity [OF u, of "''3.6''" False None None]
      get_test_config_arity [OF u, of "''1''" False None None]
      get_test_config_arity [OF s, of "''1''" False None None]
      get_test_config_arity [OF u, of _ False None None _ _ _ "[''a'', ''b'', ''c'', ''d'']"]
      l
    by simp
  have c2: "get_test_config ''linux'' [''centos7''] False None None
       = Inr \<lparr>stage_label = ''Docker'', job_label = ''CentOS'', type = ''linux'',
              platform = Some ''centos'', version = Some ''7'', group = None,
              incidental = False, branch_prefix = None, branch_kvp = None\<rparr>
   \<and> get_test_config ''linux'' [''x'', ''centos7'', ''1''] False None None
       = Inl UnexpectedParameters"
    using get_test_config_arity [OF test_types_linux, of "''centos7''" False None None]
      get_test_config_arity
        [OF test_types_linux, of _ False None None "''centos7''" "''1''" "''x''"]
      d lo x
    by simp
  show ?thesis using u s c1 c2 by blast
qed

text \<open>
  Claim C8. The components of the display target name are: the stage label, present
  exactly when the test is incidental and its stage label is not one of the three
  split-incidental labels; then the job label; then the version when it is set (in the
  sense of the source's test \<^verbatim>\<open>if self.version\<close>: neither \<^verbatim>\<open>None\<close> nor empty), where
  for type \<^verbatim>\<open>linux\<close>, job label \<^verbatim>\<open>openSUSE\<close> and version \<^verbatim>\<open>15\<close> the literal
  \<^verbatim>\<open>15 py3\<close> stands in place of the version.
\<close>

theorem name_components_composition:
  "name_components c =
     (if TestConfig.incidental c \<and> stage_label c \<notin> set split_incidental
      then [stage_label c] else [])
     @ [job_label c]
     @ (if truthy (version c)
        then [if TestConfig.type c = ''linux'' \<and> job_label c = ''openSUSE''
                 \<and> version c = Some ''15''
              then ''15 py3'' else the (version c)]
        else [])"
  by (cases "version c") (simp_all add: name_components_def Let_def)

text \<open>
  Scenario E of the specification and an incidental test of a stage that is not split:
  \<^verbatim>\<open>i/linux/centos7\<close> is named \<^verbatim>\<open>CentOS 7\<close>, \<^verbatim>\<open>i/aws/2.7/1\<close> is named
  \<^verbatim>\<open>AWS Python 2.7\<close>, and \<^verbatim>\<open>linux/opensuse15\<close> is named \<^verbatim>\<open>openSUSE 15 py3\<close>.
\<close>

theorem name_components_composition_witness:
  "name_components
      \<lparr>stage_label = ''Docker'', job_label = ''CentOS'', type = ''linux'',
       platform = Some ''centos'', version = Some ''7'', group = None,
       incidental = True, branch_prefix = None, branch_kvp = None\<rparr>
     = [''CentOS'', ''7'']
   \<and> name_components
      \<lparr>stage_label = ''AWS'', job_label = ''Python'', type = ''aws'',
       platform = None, version = Some ''2.7'', group = Some ''1'',
       incidental = True, branch_prefix = None, branch_kvp = None\<rparr>
     = [''AWS'', ''Python'', ''2.7'']
   \<and> name_components
      \<lparr>stage_label = ''Docker'', job_label = ''openSUSE'', type = ''linux'',
       platform = Some ''opensuse'', version = Some ''15'', group = None,
       incidental = False, branch_prefix = None, branch_kvp = None\<rparr>
     = [''openSUSE'', ''15 py3'']"
  using name_components_composition
          [of "\<lparr>stage_label = ''Docker'', job_label = ''CentOS'', type = ''linux'',
                platform = Some ''centos'', version = Some ''7'', group = None,
                incidental = True, branch_prefix = None, branch_kvp = None\<rparr>"]
        name_components_composition
          [of "\<lparr>stage_label = ''AWS'', job_label = ''Python'', type = ''aws'',
                platform = None, version = Some ''2.7'', group = Some ''1'',
                incidental = True, branch_prefix = None, branch_kvp = None\<rparr>"]
        name_components_composition
          [of "\<lparr>stage_label = ''Docker'', job_label = ''openSUSE'', type = ''linux'',
                platform = Some ''opensuse'', version = Some ''15'', group = None,
                incidental = False, branch_prefix = None, branch_kvp = None\<rparr>"]
  by (simp add: split_incidental_def)

text \<open>
  Claim C10, as amended. The classifier raises IndexError, which is none of the
  classification failures it raises itself, exactly on these entries: the path is a
  recognised branch alone, or a recognised branch followed only by \<^verbatim>\<open>i\<close>, and the entry
  has no further key/value pair; or the path is \<^verbatim>\<open>i\<close> alone and every key/value pair is
  consumed (there is none, or the only one holds a recognised branch); or the path has
  no segment at all, which the decoder never produces. On an entry of one of these path
  shapes that has a key/value pair left over, the unused-key check fails first.
\<close>

theorem classify_matrix_item_IndexError:
  "classify_matrix_item path_exists path is_collection item = Inl IndexError \<longleftrightarrow>
     parts item = []
     \<or> (\<exists>b\<in>set ansible_branches.
          (parts item = [b] \<or> parts item = [b, ''i'']) \<and> MatrixItem.values item = [])
     \<or> (parts item = [''i''] \<and>
         (case find_branch_kvp (MatrixItem.values item) of
            Some (k, v) \<Rightarrow> AList.delete k (MatrixItem.values item) = []
          | None \<Rightarrow> MatrixItem.values item = []))"
proof -
  have "classify_matrix_item path_exists path is_collection item = Inl IndexError
          \<longleftrightarrow> classify_test_config item = Inl IndexError"
    using test_not_IndexError
    by (auto simp: classify_matrix_item_def Let_def split: sum.splits if_splits)
  then show ?thesis by (simp only: classify_test_config_IndexError_iff)
qed

text \<open>The entries \<^verbatim>\<open>T=devel\<close>, \<^verbatim>\<open>T=i\<close> and \<^verbatim>\<open>T=devel/i\<close> raise IndexError.\<close>

theorem classify_matrix_item_IndexError_witness:
  "classify_matrix_item (\<lambda>p. True) ''repo'' True
      \<lparr>MatrixItem.raw = ''T=devel'', MatrixItem.test = ''devel'',
       MatrixItem.values = [], MatrixItem.parts = [''devel'']\<rparr> = Inl IndexError
   \<and> classify_matrix_item (\<lambda>p. True) ''repo'' True
      \<lparr>MatrixItem.raw = ''T=i'', MatrixItem.test = ''i'',
       MatrixItem.values = [], MatrixItem.parts = [''i'']\<rparr> = Inl IndexError
   \<and> classify_matrix_item (\<lambda>p. True) ''repo'' True
      \<lparr>MatrixItem.raw = ''T=devel/i'', MatrixItem.test = ''devel/i'',
       MatrixItem.values = [], MatrixItem.parts = [''devel'', ''i'']\<rparr> = Inl IndexError"
  using classify_matrix_item_IndexError
          [of "\<lambda>p. True" "''repo''" True
              "\<lparr>MatrixItem.raw = ''T=devel'', MatrixItem.test = ''devel'',
                MatrixItem.values = [], MatrixItem.parts = [''devel'']\<rparr>"]
        classify_matrix_item_IndexError
          [of "\<lambda>p. True" "''repo''" True
              "\<lparr>MatrixItem.raw = ''T=i'', MatrixItem.test = ''i'',
                MatrixItem.values = [], MatrixItem.parts = [''i'']\<rparr>"]
        classify_matrix_item_IndexError
          [of "\<lambda>p. True" "''repo''" True
              "\<lparr>MatrixItem.raw = ''T=devel/i'', MatrixItem.test = ''devel/i'',
                MatrixItem.values = [], MatrixItem.parts = [''devel'', ''i'']\<rparr>"]
  by (simp add: ansible_branches_def)

text \<open>
  Claim C10 as first stated fails for an entry whose path is a recognised branch alone
  but which carries a further key/value pair. The entry \<^verbatim>\<open>T=devel A_REV=devel\<close> is
  decoded into the path \<^verbatim>\<open>devel\<close> and the pair for \<^verbatim>\<open>A_REV\<close>; the branch is taken from
  the path, the pair is left over, and the classifier fails with the unused-key failure,
  not with IndexError.
\<close>

theorem classify_matrix_item_IndexError_counterexample:
  "parse_matrix_item ''T=devel A_REV=devel''
     = Inr \<lparr>MatrixItem.raw = ''T=devel A_REV=devel'', MatrixItem.test = ''devel'',
            MatrixItem.values = [(''A_REV'', ''devel'')], MatrixItem.parts = [''devel'']\<rparr>
   \<and> classify_matrix_item (\<lambda>p. True) ''repo'' True
        \<lparr>MatrixItem.raw = ''T=devel A_REV=devel'', MatrixItem.test = ''devel'',
         MatrixItem.values = [(''A_REV'', ''devel'')], MatrixItem.parts = [''devel'']\<rparr>
       = Inl UnrecognizedEnvKey"
  by code_simp

section \<open>The aggregator\<close>

lemma in_set_update:
  "(n, s) \<in> set (AList.update k v al) \<Longrightarrow> (n, s) = (k, v) \<or> (n, s) \<in> set al"
  by (induction al) (auto split: if_splits)

text \<open>
  A property of stages that holds of a fresh stage extended by an item, and is kept when
  a stage is extended by an item, holds of every stage after one step of the fold.
\<close>

lemma aggregate_item_preserves:
  assumes ok: "aggregate_item stages item = Inr stages'"
    and inv: "\<forall>(n, s)\<in>set stages. P n s"
    and step: "\<And>stage comps target.
        ((stage_name item, stage) \<in> set stages \<and> P (stage_name item) stage) \<or>
          stage = \<lparr>Stage.name = stage_name item,
                   Stage.incidental = TestConfig.incidental item,
                   Stage.targets = [], Stage.configs = [], Stage.groups = []\<rparr> \<Longrightarrow>
        test_components item = Inr comps \<Longrightarrow>
        target = (case map_of (Stage.targets stage) (str_join '' '' (name_components item)) of
                    Some t \<Rightarrow> t
                  | None \<Rightarrow> \<lparr>Target.name = str_join '' '' (name_components item),
                              Target.type = str_join ''/'' comps\<rparr>) \<Longrightarrow>
        Target.type target = str_join ''/'' comps \<Longrightarrow>
        P (stage_name item)
          (stage\<lparr>Stage.configs := Stage.configs stage @ [item],
                  Stage.targets :=
                    AList.update (str_join '' '' (name_components item)) target
                      (Stage.targets stage),
                  Stage.groups :=
                    (case TestConfig.group item of
                       Some g \<Rightarrow>
                         if g \<noteq> [] \<and> g \<notin> set (Stage.groups stage)
                         then Stage.groups stage @ [g]
                         else Stage.groups stage
                     | None \<Rightarrow> Stage.groups stage)\<rparr>)"
  shows "\<forall>(n, s)\<in>set stages'. P n s"
proof -
  define stage where "stage =
    (case map_of stages (stage_name item) of
       Some s \<Rightarrow> s
     | None \<Rightarrow> \<lparr>Stage.name = stage_name item,
                 Stage.incidental = TestConfig.incidental item,
                 Stage.targets = [], Stage.configs = [], Stage.groups = []\<rparr>)"
  obtain comps where comps: "test_components item = Inr comps"
    using ok by (cases "test_components item")
      (auto simp: aggregate_item_def Let_def split: if_splits)
  define target where "target =
    (case map_of (Stage.targets stage) (str_join '' '' (name_components item)) of
       Some t \<Rightarrow> t
     | None \<Rightarrow> \<lparr>Target.name = str_join '' '' (name_components item),
                 Target.type = str_join ''/'' comps\<rparr>)"
  define stage' where "stage' =
    stage\<lparr>Stage.configs := Stage.configs stage @ [item],
          Stage.targets :=
            AList.update (str_join '' '' (name_components item)) target (Stage.targets stage),
          Stage.groups :=
            (case TestConfig.group item of
               Some g \<Rightarrow>
                 if g \<noteq> [] \<and> g \<notin> set (Stage.groups stage)
                 then Stage.groups stage @ [g]
                 else Stage.groups stage
             | None \<Rightarrow> Stage.groups stage)\<rparr>"
  have unf: "aggregate_item stages item =
      (if Stage.incidental stage \<noteq> TestConfig.incidental item then Inl StageIncidentalConflict
       else if Target.type target \<noteq> str_join ''/'' comps then Inl TargetTypeConflict
       else Inr (AList.update (stage_name item) stage' stages))"
    unfolding aggregate_item_def Let_def stage_def target_def stage'_def comps by simp
  have res: "stages' = AList.update (stage_name item) stage' stages"
    and ty: "Target.type target = str_join ''/'' comps"
    using ok unf by (auto split: if_splits)
  have "((stage_name item, stage) \<in> set stages \<and> P (stage_name item) stage) \<or>
          stage = \<lparr>Stage.name = stage_name item,
                   Stage.incidental = TestConfig.incidental item,
                   Stage.targets = [], Stage.configs = [], Stage.groups = []\<rparr>"
    using inv by (auto simp: stage_def split: option.splits dest!: map_of_SomeD)
  then have "P (stage_name item) stage'"
    unfolding stage'_def using comps target_def ty by (rule step)
  then show ?thesis using inv res in_set_update by fastforce
qed


lemma aggregate_item_conflict:
  assumes "aggregate_item stages item = Inl StageIncidentalConflict"
  shows "\<exists>s. (stage_name item, s) \<in> set stages
              \<and> Stage.incidental s \<noteq> TestConfig.incidental item"
proof (cases "map_of stages (stage_name item)")
  case None
  have "test_components item \<noteq> Inl StageIncidentalConflict"
    by (auto simp: test_components_def Let_def split: option.splits if_splits)
  with assms None show ?thesis
    by (auto simp: aggregate_item_def Let_def split: if_splits sum.splits)
next
  case (Some s)
  have "test_components item \<noteq> Inl StageIncidentalConflict"
    by (auto simp: test_components_def Let_def split: option.splits if_splits)
  with assms Some have "Stage.incidental s \<noteq> TestConfig.incidental item"
    by (auto simp: aggregate_item_def Let_def split: if_splits sum.splits)
  then show ?thesis using Some map_of_SomeD by fastforce
qed

lemma test_components_nonempty: "test_components c = Inr comps \<Longrightarrow> comps \<noteq> []"
  by (auto simp: test_components_def Let_def List.map_filter_simps
           split: option.splits if_splits)

lemma name_components_nonempty: "name_components c \<noteq> []"
  by (auto simp: name_components_def Let_def split: option.splits)

lemma aggregate_item_invariant:
  assumes "aggregate_item stages item = Inr stages'"
    and "\<forall>(n, s)\<in>set stages. stage_invariant s"
  shows "\<forall>(n, s)\<in>set stages'. stage_invariant s"
  using assms
proof (rule aggregate_item_preserves [where P = "\<lambda>n. stage_invariant"])
  fix stage comps target
  assume st: "(stage_name item, stage) \<in> set stages \<and> stage_invariant stage \<or>
          stage = \<lparr>Stage.name = stage_name item,
                   Stage.incidental = TestConfig.incidental item,
                   Stage.targets = [], Stage.configs = [], Stage.groups = []\<rparr>"
    and comps: "test_components item = Inr comps"
    and target: "target =
      (case map_of (Stage.targets stage) (str_join '' '' (name_components item)) of
         Some t \<Rightarrow> t
       | None \<Rightarrow> \<lparr>Target.name = str_join '' '' (name_components item),
                   Target.type = str_join ''/'' comps\<rparr>)"
    and ty: "Target.type target = str_join ''/'' comps"
  have inv: "stage_invariant stage"
    using st by (auto simp: stage_invariant_def)
  let ?tn = "str_join '' '' (name_components item)"
  have tgt: "Target.name target = ?tn
      \<and> (\<exists>c\<in>set (Stage.configs stage @ [item]). \<exists>cs.
            test_components c = Inr cs
            \<and> Target.type target = str_join ''/'' cs
            \<and> Target.name target = str_join '' '' (name_components c))"
  proof (cases "map_of (Stage.targets stage) ?tn")
    case None
    then show ?thesis using target comps by simp
  next
    case (Some t)
    then have "(?tn, t) \<in> set (Stage.targets stage)"
      by (rule map_of_SomeD)
    moreover have "target = t" using Some target by simp
    ultimately show ?thesis using inv by (fastforce simp: stage_invariant_def)
  qed
  have old: "\<And>tn t. (tn, t) \<in> set (Stage.targets stage) \<Longrightarrow>
      Target.name t = tn
      \<and> (\<exists>c\<in>set (Stage.configs stage @ [item]). \<exists>cs.
            test_components c = Inr cs
            \<and> Target.type t = str_join ''/'' cs
            \<and> Target.name t = str_join '' '' (name_components c))"
    using inv by (fastforce simp: stage_invariant_def)
  have cfg: "\<forall>c\<in>set (Stage.configs stage @ [item]). \<exists>cs. test_components c = Inr cs"
    using inv comps by (auto simp: stage_invariant_def)
  show "stage_invariant
          (stage\<lparr>Stage.configs := Stage.configs stage @ [item],
                 Stage.targets :=
                   AList.update (str_join '' '' (name_components item)) target
                     (Stage.targets stage),
                 Stage.groups :=
                   (case TestConfig.group item of
                      Some g \<Rightarrow>
                        if g \<noteq> [] \<and> g \<notin> set (Stage.groups stage)
                        then Stage.groups stage @ [g]
                        else Stage.groups stage
                    | None \<Rightarrow> Stage.groups stage)\<rparr>)"
    unfolding stage_invariant_def
  proof (intro conjI ballI)
    fix c
    assume "c \<in> set (Stage.configs
                (stage\<lparr>Stage.configs := Stage.configs stage @ [item],
                       Stage.targets :=
                         AList.update ?tn target (Stage.targets stage),
                       Stage.groups :=
                         (case TestConfig.group item of
                            Some g \<Rightarrow>
                              if g \<noteq> [] \<and> g \<notin> set (Stage.groups stage)
                              then Stage.groups stage @ [g]
                              else Stage.groups stage
                          | None \<Rightarrow> Stage.groups stage)\<rparr>))"
    then have "c \<in> set (Stage.configs stage @ [item])" by simp
    then show "\<exists>comps. test_components c = Inr comps" using cfg by blast
  next
    fix x
    assume x: "x \<in> set (Stage.targets
                (stage\<lparr>Stage.configs := Stage.configs stage @ [item],
                       Stage.targets :=
                         AList.update ?tn target (Stage.targets stage),
                       Stage.groups :=
                         (case TestConfig.group item of
                            Some g \<Rightarrow>
                              if g \<noteq> [] \<and> g \<notin> set (Stage.groups stage)
                              then Stage.groups stage @ [g]
                              else Stage.groups stage
                          | None \<Rightarrow> Stage.groups stage)\<rparr>))"
    obtain tn t where xt: "x = (tn, t)" by (cases x)
    with x have "(tn, t) = (?tn, target) \<or> (tn, t) \<in> set (Stage.targets stage)"
      using in_set_update [of tn t ?tn target "Stage.targets stage"] by simp
    then have "Target.name t = tn
      \<and> (\<exists>c\<in>set (Stage.configs stage @ [item]). \<exists>cs.
            test_components c = Inr cs
            \<and> Target.type t = str_join ''/'' cs
            \<and> Target.name t = str_join '' '' (name_components c))"
      using tgt old by blast
    then show "case x of (tn, t) \<Rightarrow>
        Target.name t = tn
        \<and> (\<exists>c\<in>set (Stage.configs
                (stage\<lparr>Stage.configs := Stage.configs stage @ [item],
                       Stage.targets :=
                         AList.update ?tn target (Stage.targets stage),
                       Stage.groups :=
                         (case TestConfig.group item of
                            Some g \<Rightarrow>
                              if g \<noteq> [] \<and> g \<notin> set (Stage.groups stage)
                              then Stage.groups stage @ [g]
                              else Stage.groups stage
                          | None \<Rightarrow> Stage.groups stage)\<rparr>)). \<exists>comps.
              test_components c = Inr comps
              \<and> Target.type t = str_join ''/'' comps
              \<and> Target.name t = str_join '' '' (name_components c))"
      using xt by auto
  qed
qed

lemma aggregate_invariant:
  assumes "aggregate stages cs = Inr stages'"
    and "\<forall>(n, s)\<in>set stages. stage_invariant s"
  shows "\<forall>(n, s)\<in>set stages'. stage_invariant s"
  using assms
proof (induction cs arbitrary: stages)
  case Nil
  then show ?case by simp
next
  case (Cons item items)
  from Cons.prems(1) obtain mid where mid: "aggregate_item stages item = Inr mid"
    and rest: "aggregate mid items = Inr stages'"
    by (cases "aggregate_item stages item") auto
  have "\<forall>(n, s)\<in>set mid. stage_invariant s"
    using mid Cons.prems(2) by (rule aggregate_item_invariant)
  with rest show ?case by (rule Cons.IH)
qed

section \<open>The templates of a stage\<close>

text \<open>
  The scan over nonempty component tuples at positive depths never reads the last item
  of an empty tuple, and what it returns is a common prefix of all the tuples.
\<close>

lemma remdups_singleton:
  assumes "remdups xs = [p]"
  shows "set xs = {p}"
proof -
  have "set xs = set (remdups xs)" by simp
  then show ?thesis using assms by simp
qed

lemma prefix_scan_total:
  assumes "\<forall>comp\<in>set comps. comp \<noteq> []" and "\<forall>i\<in>set js. 0 < i"
  shows "\<exists>p. prefix_scan js comps acc = Inr p"
  using assms(2)
proof (induction js arbitrary: acc)
  case Nil
  then show ?case by simp
next
  case (Cons i js)
  show ?case
  proof (cases "\<exists>p. remdups (map (take i) comps) = [p]")
    case False
    then show ?thesis
      by (cases "remdups (map (take i) comps)"; cases "tl (remdups (map (take i) comps))")
         auto
  next
    case True
    then obtain p where p: "remdups (map (take i) comps) = [p]" by blast
    then have "p \<in> set (map (take i) comps)"
      using remdups_singleton by fastforce
    then obtain comp where "comp \<in> set comps" and "p = take i comp" by auto
    then have "p \<noteq> []" using assms(1) Cons.prems by auto
    then show ?thesis using p Cons by simp
  qed
qed


lemma all_test_components_Inr:
  assumes "\<forall>c\<in>set cs. \<exists>comps. test_components c = Inr comps"
  shows "\<exists>compss. all_test_components cs = Inr compss
           \<and> length compss = length cs
           \<and> (\<forall>i<length cs. test_components (cs ! i) = Inr (compss ! i))"
  using assms
proof (induction cs)
  case Nil
  then show ?case by simp
next
  case (Cons c cs)
  then obtain comps where c: "test_components c = Inr comps" by auto
  from Cons obtain compss where r: "all_test_components cs = Inr compss"
    and l: "length compss = length cs"
    and a: "\<forall>i<length cs. test_components (cs ! i) = Inr (compss ! i)"
    by auto
  have "\<forall>i<length (c # cs). test_components ((c # cs) ! i) = Inr ((comps # compss) ! i)"
    using c a by (auto simp: nth_Cons split: nat.splits)
  then show ?case using c r l by simp
qed

lemma all_test_components_set:
  assumes "all_test_components cs = Inr compss"
  shows "(\<forall>comps\<in>set compss. \<exists>c\<in>set cs. test_components c = Inr comps)
       \<and> (\<forall>c\<in>set cs. \<exists>comps\<in>set compss. test_components c = Inr comps)"
  using assms
proof (induction cs arbitrary: compss)
  case Nil
  then show ?case by simp
next
  case (Cons c cs)
  then show ?case
    by (cases "test_components c"; cases "all_test_components cs") auto
qed

lemma upt_positive: "\<forall>i\<in>set [1..<10]. 0 < i"
  by simp

lemma test_prefix_total:
  assumes "stage_invariant s"
  shows "\<exists>tp. test_prefix s = Inr tp"
proof -
  obtain compss where c: "all_test_components (Stage.configs s) = Inr compss"
    using assms all_test_components_Inr unfolding stage_invariant_def by blast
  have "\<forall>comp\<in>set compss. comp \<noteq> []"
    using all_test_components_set [OF c] test_components_nonempty by blast
  then show ?thesis
    using prefix_scan_total [OF _ upt_positive] c by (simp add: test_prefix_def)
qed

lemma name_prefix_total: "\<exists>np. name_prefix s = Inr np"
proof -
  have "\<forall>comp\<in>set (map name_components (Stage.configs s)). comp \<noteq> []"
    using name_components_nonempty by auto
  then show ?thesis
    using prefix_scan_total [OF _ upt_positive] by (simp add: name_prefix_def)
qed

text \<open>
  What \<^verbatim>\<open>clean_value\<close> returns follows the two built-ins in order: the \<^verbatim>\<open>int\<close> when
  \<^verbatim>\<open>int\<close> accepts the string, else the float when \<^verbatim>\<open>float\<close> accepts it, else the
  string. A slice such as \<^verbatim>\<open>3.10\<close>, which \<^verbatim>\<open>int\<close> refuses and \<^verbatim>\<open>float\<close> accepts, is
  emitted as that float.
\<close>

lemma clean_value_cases:
  "(py_int b v = Some i \<longrightarrow> clean_value b v = PyInt i)
   \<and> (py_int b v = None \<and> py_float b v = Some x \<longrightarrow> clean_value b v = PyFloat x)
   \<and> (py_int b v = None \<and> py_float b v = None \<longrightarrow> clean_value b v = PyStr v)"
  by (simp add: clean_value_def)

lemma target_add_same_string:
  assumes "py_int b v = None" and "py_float b v = None"
  shows "target_add b v v = (None, PyStr v)"
  using assms by (simp add: target_add_def clean_value_def)

lemma content_stage_total:
  assumes "stage_invariant s"
  shows "\<exists>c. content_stage b s = Inr c"
proof -
  obtain tp where tp: "test_prefix s = Inr tp" using assms test_prefix_total by blast
  obtain np where np: "name_prefix s = Inr np" using name_prefix_total by blast
  show ?thesis by (simp add: content_stage_def tp np Let_def)
qed

lemma content_stages_total:
  assumes "\<forall>(n, s)\<in>set stages. stage_invariant s"
  shows "\<exists>cs. content_stages b stages = Inr cs"
  using assms
proof (induction stages)
  case Nil
  then show ?case by simp
next
  case (Cons ns stages)
  obtain n s where ns: "ns = (n, s)" by (cases ns)
  with Cons.prems have "stage_invariant s" by simp
  then obtain c where c: "content_stage b s = Inr c" using content_stage_total by blast
  from Cons obtain cs where "content_stages b stages = Inr cs" by auto
  then show ?case using ns c by simp
qed

text \<open>
  Claim C2. Once the fold over the classified entries has succeeded, with the total
  number of jobs being the sum over the stages of the number of targets times the number
  of groups (one when there is no group): a total below the number of entries makes
  \<^verbatim>\<open>generate_stages\<close> fail with the count mismatch; a total above it makes it return its
  content with exactly one warning, the surplus; an equal total makes it return its
  content with no warning.
\<close>

theorem generate_stages_job_count:
  assumes "aggregate [] classified_matrix = Inr stages"
  shows
    "converted_jobs stages
       = (\<Sum>(n, s)\<leftarrow>stages. length (Stage.targets s) * max 1 (length (Stage.groups s)))
     \<and> (converted_jobs stages < length classified_matrix \<longrightarrow>
          generate_stages b classified_matrix = Inl MatrixCountMismatch)
     \<and> (converted_jobs stages > length classified_matrix \<longrightarrow>
          (\<exists>content. generate_stages b classified_matrix
             = Inr ([MatrixCountSurplus (converted_jobs stages) (length classified_matrix)],
                    content)))
     \<and> (converted_jobs stages = length classified_matrix \<longrightarrow>
          (\<exists>content. generate_stages b classified_matrix = Inr ([], content)))"
proof -
  have "\<forall>(n, s)\<in>set stages. stage_invariant s"
    using assms aggregate_invariant [of "[]" classified_matrix stages] by simp
  then obtain content where c: "content_stages b stages = Inr content"
    using content_stages_total by blast
  have jc: "\<And>s. job_count s = length (Stage.targets s) * max 1 (length (Stage.groups s))"
  proof -
    fix s :: Stage
    show "job_count s = length (Stage.targets s) * max 1 (length (Stage.groups s))"
      by (cases "Stage.groups s")
         (simp_all add: job_count_def target_count_def group_count_def)
  qed
  have "converted_jobs stages
       = (\<Sum>(n, s)\<leftarrow>stages. length (Stage.targets s) * max 1 (length (Stage.groups s)))"
    by (simp add: converted_jobs_def jc)
  then show ?thesis using assms c by (simp add: generate_stages_def)
qed

text \<open>
  Three runs: two entries \<^verbatim>\<open>units/2.7/1\<close> and one \<^verbatim>\<open>units/3.6/1\<close> give two jobs for
  three entries and fail; \<^verbatim>\<open>units/2.7/1\<close>, \<^verbatim>\<open>units/3.6/1\<close> and \<^verbatim>\<open>units/2.7/2\<close> give
  four jobs for three entries and succeed with the warning; \<^verbatim>\<open>sanity\<close> alone gives one
  job for one entry and succeeds silently; each whatever the built-ins are.
\<close>

theorem generate_stages_job_count_witness:
  "(\<forall>b. generate_stages b [units_config ''2.7'' ''1'', units_config ''3.6'' ''1'',
                          units_config ''2.7'' ''1'']
          = Inl MatrixCountMismatch)
   \<and> (\<forall>b. \<exists>content.
         generate_stages b [units_config ''2.7'' ''1'', units_config ''3.6'' ''1'',
                            units_config ''2.7'' ''2'']
           = Inr ([MatrixCountSurplus 4 3], content))
   \<and> (\<forall>b. \<exists>content. generate_stages b [sanity_config] = Inr ([], content))"
proof -
  let ?cs1 = "[units_config ''2.7'' ''1'', units_config ''3.6'' ''1'',
               units_config ''2.7'' ''1'']"
  let ?cs2 = "[units_config ''2.7'' ''1'', units_config ''3.6'' ''1'',
               units_config ''2.7'' ''2'']"
  let ?cs3 = "[sanity_config]"
  have "aggregate [] ?cs1 = Inr (projr (aggregate [] ?cs1))
        \<and> converted_jobs (projr (aggregate [] ?cs1)) = 2"
    by code_simp
  then obtain st1 where a1: "aggregate [] ?cs1 = Inr st1" and n1: "converted_jobs st1 = 2"
    by blast
  have "aggregate [] ?cs2 = Inr (projr (aggregate [] ?cs2))
        \<and> converted_jobs (projr (aggregate [] ?cs2)) = 4"
    by code_simp
  then obtain st2 where a2: "aggregate [] ?cs2 = Inr st2" and n2: "converted_jobs st2 = 4"
    by blast
  have "aggregate [] ?cs3 = Inr (projr (aggregate [] ?cs3))
        \<and> converted_jobs (projr (aggregate [] ?cs3)) = 1"
    by code_simp
  then obtain st3 where a3: "aggregate [] ?cs3 = Inr st3" and n3: "converted_jobs st3 = 1"
    by blast
  have c1: "generate_stages b ?cs1 = Inl MatrixCountMismatch" for b :: "'f builtins"
    using generate_stages_job_count [OF a1, where b = b] n1 by simp
  have c2: "\<exists>content. generate_stages b ?cs2 = Inr ([MatrixCountSurplus 4 3], content)"
    for b :: "'f builtins"
    using generate_stages_job_count [OF a2, where b = b] n2 by (simp add: numeral_3_eq_3)
  have c3: "\<exists>content. generate_stages b ?cs3 = Inr ([], content)"
    for b :: "'f builtins"
    using generate_stages_job_count [OF a3, where b = b] n3 by simp
  show ?thesis using c1 c2 c3 by blast
qed








text \<open>
  The path suffix of a stage with exactly one group is the list of the characters of
  that group; it is the one-element list holding the group exactly when the group has one
  character.
\<close>

lemma test_suffix_single_group:
  assumes "Stage.groups s = [g]"
  shows "test_suffix s = map (\<lambda>ch. [ch]) g" and "test_suffix s = [g] \<longleftrightarrow> length g = 1"
proof -
  show a: "test_suffix s = map (\<lambda>ch. [ch]) g"
    using assms by (simp add: test_suffix_def)
  show "test_suffix s = [g] \<longleftrightarrow> length g = 1"
  proof
    assume "test_suffix s = [g]"
    then have "length (map (\<lambda>ch. [ch]) g) = length [g]" using a by simp
    then show "length g = 1" by simp
  next
    assume "length g = 1"
    then obtain ch where "g = [ch]" by (cases g) auto
    then show "test_suffix s = [g]" using a by simp
  qed
qed

text \<open>
  Claim C4 fails on the code for a single group of more than one character. With the
  entries \<^verbatim>\<open>units/2.7/10\<close> and \<^verbatim>\<open>units/3.6/10\<close> the only group is \<^verbatim>\<open>10\<close>, and the
  path-format string ends in \<^verbatim>\<open>/1/0\<close>, one item per character of the group, where the
  claim has the single token \<^verbatim>\<open>10\<close>.
\<close>

theorem test_suffix_failing_input:
  "generate_stages b [units_config ''2.7'' ''10'', units_config ''3.6'' ''10'']
     = Inr ([],
            [\<lparr>ContentStage.stage = ''Units'', ContentStage.displayName = None,
              ContentStage.nameFormat = Some ''Python {0}'',
              ContentStage.testFormat = Some ''units/{0}/1/0'',
              ContentStage.targets =
                [target_add b ''2.7'' ''2.7'', target_add b ''3.6'' ''3.6''],
              ContentStage.groups = None\<rparr>])"
proof -
  let ?cs = "[units_config ''2.7'' ''10'', units_config ''3.6'' ''10'']"
  let ?st = "\<lparr>Stage.name = ''Units'', Stage.incidental = False,
      Stage.targets =
        [(''Python 2.7'', \<lparr>Target.name = ''Python 2.7'', Target.type = ''units/2.7''\<rparr>),
         (''Python 3.6'', \<lparr>Target.name = ''Python 3.6'', Target.type = ''units/3.6''\<rparr>)],
      Stage.configs = ?cs, Stage.groups = [''10'']\<rparr>"
  have a: "aggregate [] ?cs = Inr [(''Units'', ?st)]" by code_simp
  have n: "converted_jobs [(''Units'', ?st)] = 2" by code_simp
  have tp: "test_prefix ?st = Inr [''units'']" by code_simp
  have np: "name_prefix ?st = Inr [''Python'']" by code_simp
  have tf: "test_format [''units''] (test_suffix ?st) = ''units/{0}/1/0''" by code_simp
  have nf: "name_format [''Python''] = ''Python {0}''" by code_simp
  have id: "str_replace ''.'' ''_'' (str_replace '' '' ''_'' ''Units'') = ''Units''"
    by code_simp
  have r1: "drop (name_offset [''Python'']) ''Python 2.7'' = ''2.7''" by code_simp
  have r2: "drop (test_offset [''units'']) ''units/2.7'' = ''2.7''" by code_simp
  have r3: "drop (name_offset [''Python'']) ''Python 3.6'' = ''3.6''" by code_simp
  have r4: "drop (test_offset [''units'']) ''units/3.6'' = ''3.6''" by code_simp
  have g: "groups_value b ?st = None" by (simp add: groups_value_def)
  have c: "content_stage b ?st
     = Inr \<lparr>ContentStage.stage = ''Units'', ContentStage.displayName = None,
            ContentStage.nameFormat = Some ''Python {0}'',
            ContentStage.testFormat = Some ''units/{0}/1/0'',
            ContentStage.targets =
              [target_add b ''2.7'' ''2.7'', target_add b ''3.6'' ''3.6''],
            ContentStage.groups = None\<rparr>"
    unfolding content_stage_def tp np Let_def
    by (simp add: tf nf id r1 r2 r3 r4 g)
  show ?thesis
    unfolding generate_stages_def a by (simp add: n c)
qed

section \<open>Stage names of classified tests\<close>

lemma branch_replace:
  assumes "b \<in> set ansible_branches"
  shows "str_replace ''stable-'' '''' b = spec_strip_stable b
       \<and> spec_strip_stable b \<noteq> [] \<and> b \<noteq> []"
proof -
  have "list_all (\<lambda>x. str_replace ''stable-'' '''' x = spec_strip_stable x
                      \<and> spec_strip_stable x \<noteq> [] \<and> x \<noteq> []) ansible_branches"
    by code_simp
  then show ?thesis unfolding list_all_iff using assms by blast
qed

lemma get_test_config_fields:
  assumes "get_test_config tt ps inc bp bk = Inr tc"
  shows "TestConfig.incidental tc = inc" and "branch_prefix tc = bp" and "branch_kvp tc = bk"
    and "\<exists>jl. test_types tt = Some (stage_label tc, jl)"
  using assms
  by (auto simp: get_test_config_def split: option.splits sum.splits prod.splits if_splits)

text \<open>
  Claim C7. For every test that the classifier returns, the stage name computed by the
  source is the one the rule of the specification gives: the branch comes from the
  prefix or else from the pair, the source's removal of every \<^verbatim>\<open>stable-\<close> amounts on the
  recognised branches to stripping that prefix, and a resolved branch is never empty.
\<close>

theorem stage_name_composition:
  assumes "classify_matrix_item path_exists path is_collection item = Inr tc"
  shows "stage_name tc = spec_stage_name tc"
proof -
  obtain tt ps inc bp bk where g: "get_test_config tt ps inc bp bk = Inr tc"
    and b1: "case bp of None \<Rightarrow> True | Some b \<Rightarrow> b \<in> set ansible_branches \<and> bk = None"
    and b2: "case bk of None \<Rightarrow> True | Some (k, v) \<Rightarrow> v \<in> set ansible_branches"
    using classify_test_config_get [OF classify_matrix_item_config [OF assms]] by blast
  have f: "branch_prefix tc = bp" "branch_kvp tc = bk"
    using get_test_config_fields [OF g] by simp_all
  show ?thesis
  proof (cases bp)
    case (Some b)
    then have "b \<in> set ansible_branches" using b1 by simp
    then show ?thesis using Some f branch_replace [of b]
      by (simp add: stage_name_def spec_stage_name_def branch_name_def Let_def)
  next
    case None
    show ?thesis
    proof (cases bk)
      case n: None
      then show ?thesis using None f
        by (simp add: stage_name_def spec_stage_name_def branch_name_def Let_def)
    next
      case (Some kv)
      obtain k v where kv: "kv = (k, v)" by (cases kv)
      then have "v \<in> set ansible_branches" using b2 Some by simp
      then show ?thesis using Some kv None f branch_replace [of v]
        by (simp add: stage_name_def spec_stage_name_def branch_name_def Let_def)
    qed
  qed
qed

text \<open>
  Scenario F of the specification and a branch given as a key/value pair: the entry
  \<^verbatim>\<open>T=devel/sanity\<close> is placed in the stage \<^verbatim>\<open>Sanity devel\<close>, and the incidental entry
  \<^verbatim>\<open>T=i/windows/2019 A_REV=stable-2.9\<close> in the stage \<^verbatim>\<open>Incidental Windows 2.9\<close>.
\<close>

theorem stage_name_composition_witness:
  "classify_matrix_item (\<lambda>p. True) ''repo'' True
      \<lparr>MatrixItem.raw = ''T=devel/sanity'', MatrixItem.test = ''devel/sanity'',
       MatrixItem.values = [], MatrixItem.parts = [''devel'', ''sanity'']\<rparr>
     = Inr \<lparr>stage_label = ''Sanity'', job_label = ''Test'', type = ''sanity'',
            platform = None, version = None, group = None,
            incidental = False, branch_prefix = Some ''devel'', branch_kvp = None\<rparr>
   \<and> stage_name \<lparr>stage_label = ''Sanity'', job_label = ''Test'', type = ''sanity'',
            platform = None, version = None, group = None,
            incidental = False, branch_prefix = Some ''devel'', branch_kvp = None\<rparr>
       = ''Sanity devel''
   \<and> classify_matrix_item (\<lambda>p. True) ''repo'' True
      \<lparr>MatrixItem.raw = ''T=i/windows/2019 A_REV=stable-2.9'',
       MatrixItem.test = ''i/windows/2019'',
       MatrixItem.values = [(''A_REV'', ''stable-2.9'')],
       MatrixItem.parts = [''i'', ''windows'', ''2019'']\<rparr>
     = Inr \<lparr>stage_label = ''Windows'', job_label = ''Server'', type = ''windows'',
            platform = None, version = Some ''2019'', group = None,
            incidental = True, branch_prefix = None,
            branch_kvp = Some (''A_REV'', ''stable-2.9'')\<rparr>
   \<and> stage_name \<lparr>stage_label = ''Windows'', job_label = ''Server'', type = ''windows'',
            platform = None, version = Some ''2019'', group = None,
            incidental = True, branch_prefix = None,
            branch_kvp = Some (''A_REV'', ''stable-2.9'')\<rparr>
       = ''Incidental Windows 2.9''"
proof -
  let ?i1 = "\<lparr>MatrixItem.raw = ''T=devel/sanity'', MatrixItem.test = ''devel/sanity'',
       MatrixItem.values = [], MatrixItem.parts = [''devel'', ''sanity'']\<rparr>"
  let ?c1 = "\<lparr>stage_label = ''Sanity'', job_label = ''Test'', type = ''sanity'',
            platform = None, version = None, group = None,
            incidental = False, branch_prefix = Some ''devel'', branch_kvp = None\<rparr>"
  let ?i2 = "\<lparr>MatrixItem.raw = ''T=i/windows/2019 A_REV=stable-2.9'',
       MatrixItem.test = ''i/windows/2019'',
       MatrixItem.values = [(''A_REV'', ''stable-2.9'')],
       MatrixItem.parts = [''i'', ''windows'', ''2019'']\<rparr>"
  let ?c2 = "\<lparr>stage_label = ''Windows'', job_label = ''Server'', type = ''windows'',
            platform = None, version = Some ''2019'', group = None,
            incidental = True, branch_prefix = None,
            branch_kvp = Some (''A_REV'', ''stable-2.9'')\<rparr>"
  have e1: "classify_matrix_item (\<lambda>p. True) ''repo'' True ?i1 = Inr ?c1" by code_simp
  have e2: "classify_matrix_item (\<lambda>p. True) ''repo'' True ?i2 = Inr ?c2" by code_simp
  have s1: "spec_stage_name ?c1 = ''Sanity devel''" by code_simp
  have s2: "spec_stage_name ?c2 = ''Incidental Windows 2.9''" by code_simp
  have c1: "stage_name ?c1 = ''Sanity devel''"
    using stage_name_composition [OF e1] s1 by simp
  have c2: "stage_name ?c2 = ''Incidental Windows 2.9''"
    using stage_name_composition [OF e2] s2 by simp
  show ?thesis using e1 e2 c1 c2 by blast
qed

text \<open>
  No stage label of the table begins with the two letters that begin \<^verbatim>\<open>Incidental\<close>,
  and every one has at least two letters; so the first two letters of a stage name tell
  whether the test is incidental.
\<close>

lemma test_types_stage_label:
  assumes "test_types tt = Some (sl, jl)"
  shows "take 2 sl \<noteq> ''In'' \<and> 2 \<le> length sl"
  using assms by (auto simp: test_types_def split: if_splits)

lemma stage_name_incidental:
  "TestConfig.incidental c \<Longrightarrow> take 2 (stage_name c) = ''In''"
  by (simp add: stage_name_def Let_def)

lemma stage_name_not_incidental:
  "\<not> TestConfig.incidental c \<Longrightarrow> 2 \<le> length (stage_label c) \<Longrightarrow>
     take 2 (stage_name c) = take 2 (stage_label c)"
  by (auto simp: stage_name_def Let_def split: option.splits)

lemma classified_incidental_iff:
  assumes "classify_matrix_item path_exists path is_collection item = Inr tc"
  shows "TestConfig.incidental tc \<longleftrightarrow> take 2 (stage_name tc) = ''In''"
proof -
  obtain tt ps inc bp bk where g: "get_test_config tt ps inc bp bk = Inr tc"
    using classify_test_config_get [OF classify_matrix_item_config [OF assms]] by blast
  obtain jl where "test_types tt = Some (stage_label tc, jl)"
    using get_test_config_fields(4) [OF g] by blast
  then have l: "take 2 (stage_label tc) \<noteq> ''In'' \<and> 2 \<le> length (stage_label tc)"
    by (rule test_types_stage_label)
  show ?thesis
  proof (cases "TestConfig.incidental tc")
    case True
    then show ?thesis using stage_name_incidental by blast
  next
    case False
    then show ?thesis using l stage_name_not_incidental [of tc] by simp
  qed
qed

lemma aggregate_no_conflict:
  assumes "\<forall>c\<in>set cs. TestConfig.incidental c \<longleftrightarrow> take 2 (stage_name c) = ''In''"
    and "\<forall>(n, s)\<in>set stages. Stage.incidental s \<longleftrightarrow> take 2 n = ''In''"
  shows "aggregate stages cs \<noteq> Inl StageIncidentalConflict"
  using assms
proof (induction cs arbitrary: stages)
  case Nil
  then show ?case by simp
next
  case (Cons item items)
  have it: "TestConfig.incidental item \<longleftrightarrow> take 2 (stage_name item) = ''In''"
    using Cons.prems(1) by simp
  show ?case
  proof (cases "aggregate_item stages item")
    case (Inl e)
    have "e \<noteq> StageIncidentalConflict"
    proof
      assume "e = StageIncidentalConflict"
      then obtain s where "(stage_name item, s) \<in> set stages"
        and "Stage.incidental s \<noteq> TestConfig.incidental item"
        using Inl aggregate_item_conflict by blast
      then show False using Cons.prems(2) it by auto
    qed
    then show ?thesis using Inl by simp
  next
    case (Inr mid)
    have "\<forall>(n, s)\<in>set mid. Stage.incidental s \<longleftrightarrow> take 2 n = ''In''"
      using Inr Cons.prems(2)
    proof (rule aggregate_item_preserves
             [where P = "\<lambda>n s. Stage.incidental s \<longleftrightarrow> take 2 n = ''In''"])
      fix stage :: Stage and comps :: "string list" and target :: Target
      assume "(stage_name item, stage) \<in> set stages
                \<and> (Stage.incidental stage \<longleftrightarrow> take 2 (stage_name item) = ''In'')
              \<or> stage = \<lparr>Stage.name = stage_name item,
                   Stage.incidental = TestConfig.incidental item,
                   Stage.targets = [], Stage.configs = [], Stage.groups = []\<rparr>"
      then have "Stage.incidental stage \<longleftrightarrow> take 2 (stage_name item) = ''In''"
        using it by auto
      then show "Stage.incidental
          (stage\<lparr>Stage.configs := Stage.configs stage @ [item],
                 Stage.targets :=
                   AList.update (str_join '' '' (name_components item)) target
                     (Stage.targets stage),
                 Stage.groups :=
                   (case TestConfig.group item of
                      Some g \<Rightarrow>
                        if g \<noteq> [] \<and> g \<notin> set (Stage.groups stage)
                        then Stage.groups stage @ [g]
                        else Stage.groups stage
                    | None \<Rightarrow> Stage.groups stage)\<rparr>)
          \<longleftrightarrow> take 2 (stage_name item) = ''In''"
        by simp
    qed
    then have "aggregate mid items \<noteq> Inl StageIncidentalConflict"
      using Cons.IH [of mid] Cons.prems(1) by simp
    then show ?thesis using Inr by simp
  qed
qed

text \<open>
  Claim C9. For tests that the classifier returned, equal stage names imply equal
  incidental flags, so the fold never fails with the stage-incidental conflict, and
  neither does \<^verbatim>\<open>generate_stages\<close>.
\<close>

theorem stage_incidental_conflict_unreachable:
  assumes "\<forall>c\<in>set classified_matrix.
             \<exists>path_exists path is_collection item.
               classify_matrix_item path_exists path is_collection item = Inr c"
  shows "(\<forall>c1\<in>set classified_matrix. \<forall>c2\<in>set classified_matrix.
            stage_name c1 = stage_name c2 \<longrightarrow>
            TestConfig.incidental c1 = TestConfig.incidental c2)
       \<and> aggregate [] classified_matrix \<noteq> Inl StageIncidentalConflict
       \<and> generate_stages b classified_matrix \<noteq> Inl StageIncidentalConflict"
proof -
  have iff: "\<forall>c\<in>set classified_matrix.
               TestConfig.incidental c \<longleftrightarrow> take 2 (stage_name c) = ''In''"
    using assms classified_incidental_iff by blast
  then have eq: "\<forall>c1\<in>set classified_matrix. \<forall>c2\<in>set classified_matrix.
            stage_name c1 = stage_name c2 \<longrightarrow>
            TestConfig.incidental c1 = TestConfig.incidental c2"
    by metis
  have agg: "aggregate [] classified_matrix \<noteq> Inl StageIncidentalConflict"
    using aggregate_no_conflict [OF iff, of "[]"] by simp
  have "generate_stages b classified_matrix \<noteq> Inl StageIncidentalConflict"
  proof (cases "aggregate [] classified_matrix")
    case (Inl e)
    then show ?thesis using agg by (simp add: generate_stages_def)
  next
    case (Inr stages)
    then have "\<forall>(n, s)\<in>set stages. stage_invariant s"
      using aggregate_invariant [of "[]" classified_matrix stages] by simp
    then obtain content where "content_stages b stages = Inr content"
      using content_stages_total by blast
    then show ?thesis using Inr by (simp add: generate_stages_def)
  qed
  then show ?thesis using eq agg by blast
qed

text \<open>
  The entries \<^verbatim>\<open>T=i/linux/centos7\<close> (Scenario E) and \<^verbatim>\<open>T=linux/centos7\<close> (Scenario D)
  are classified into the stages \<^verbatim>\<open>Incidental Docker\<close> and \<^verbatim>\<open>Docker\<close>, and folding
  them raises no conflict.
\<close>

theorem stage_incidental_conflict_unreachable_witness:
  "classify_matrix_item (\<lambda>p. True) ''repo'' True
      \<lparr>MatrixItem.raw = ''T=i/linux/centos7'', MatrixItem.test = ''i/linux/centos7'',
       MatrixItem.values = [], MatrixItem.parts = [''i'', ''linux'', ''centos7'']\<rparr>
     = Inr (centos7_config True)
   \<and> classify_matrix_item (\<lambda>p. True) ''repo'' True
      \<lparr>MatrixItem.raw = ''T=linux/centos7'', MatrixItem.test = ''linux/centos7'',
       MatrixItem.values = [], MatrixItem.parts = [''linux'', ''centos7'']\<rparr>
     = Inr (centos7_config False)
   \<and> stage_name (centos7_config True) = ''Incidental Docker''
   \<and> stage_name (centos7_config False) = ''Docker''
   \<and> aggregate [] [centos7_config True, centos7_config False]
       \<noteq> Inl StageIncidentalConflict
   \<and> (\<forall>b. generate_stages b [centos7_config True, centos7_config False]
              \<noteq> Inl StageIncidentalConflict)"
proof -
  let ?i1 = "\<lparr>MatrixItem.raw = ''T=i/linux/centos7'', MatrixItem.test = ''i/linux/centos7'',
       MatrixItem.values = [], MatrixItem.parts = [''i'', ''linux'', ''centos7'']\<rparr>"
  let ?i2 = "\<lparr>MatrixItem.raw = ''T=linux/centos7'', MatrixItem.test = ''linux/centos7'',
       MatrixItem.values = [], MatrixItem.parts = [''linux'', ''centos7'']\<rparr>"
  have e1: "classify_matrix_item (\<lambda>p. True) ''repo'' True ?i1 = Inr (centos7_config True)"
    by code_simp
  have e2: "classify_matrix_item (\<lambda>p. True) ''repo'' True ?i2 = Inr (centos7_config False)"
    by code_simp
  have n1: "stage_name (centos7_config True) = ''Incidental Docker''" by code_simp
  have n2: "stage_name (centos7_config False) = ''Docker''" by code_simp
  have h: "\<forall>c\<in>set [centos7_config True, centos7_config False].
             \<exists>path_exists path is_collection item.
               classify_matrix_item path_exists path is_collection item = Inr c"
  proof
    fix c assume "c \<in> set [centos7_config True, centos7_config False]"
    then have "c = centos7_config True \<or> c = centos7_config False" by simp
    then show "\<exists>path_exists path is_collection item.
               classify_matrix_item path_exists path is_collection item = Inr c"
      using e1 e2 by blast
  qed
  show ?thesis
    using stage_incidental_conflict_unreachable [OF h] e1 e2 n1 n2 by blast
qed

end
